theory Spec2Isabelle
  imports Main "HOL-Library.Char_ord" "HOL-Library.List_Lexorder"
begin

section \<open>Values, documents and dictionaries\<close>

text \<open>
  A finite Python \<open>Decimal\<close> is a coefficient and an exponent: \<open>Decimal c e\<close> stands
  for \<open>c * 10 ^ e\<close> (a zero carries no sign here).
\<close>

datatype decimal = Decimal (coefficient: int) (exponent: int)

text \<open>
  Arithmetic on decimals rounds its result to the precision of the context, 28
  significant digits in the default context, to the nearest value and to the even one at
  a tie (\<open>ROUND_HALF_EVEN\<close>): digits beyond the first 28 are dropped, the exponent grows
  by their number, and a rounded coefficient that reaches 29 digits loses its last zero.
  The exponent limits of the context (\<open>Emin = -999999\<close>, \<open>Emax = 999999\<close>) are outside
  the model.
\<close>

fun num_digits :: "nat \<Rightarrow> nat" where
  "num_digits n = (if n < 10 then 1 else Suc (num_digits (n div 10)))"

declare num_digits.simps [simp del]

definition round_half_even :: "nat \<Rightarrow> nat \<Rightarrow> nat" where
  "round_half_even n dropped =
     (let kept = n div 10 ^ dropped;
          rest = n mod 10 ^ dropped;
          half = 5 * 10 ^ (dropped - 1)
      in if half < rest \<or> (rest = half \<and> kept mod 2 = 1) then kept + 1 else kept)"

definition fix_context :: "decimal \<Rightarrow> decimal" where
  "fix_context d =
     (let n = nat \<bar>coefficient d\<bar>;
          digits = num_digits n
      in if digits \<le> 28 then d
         else (let dropped = digits - 28;
                   rounded = round_half_even n dropped;
                   coeff = (if 28 < num_digits rounded then rounded div 10 else rounded);
                   e = (if 28 < num_digits rounded
                        then exponent d + int dropped + 1 else exponent d + int dropped)
               in Decimal (if coefficient d < 0 then - int coeff else int coeff) e))"

text \<open>
  \<open>d * q\<close> for a decimal \<open>d\<close> and an integer \<open>q\<close>: the product of the coefficients
  with the exponent of \<open>d\<close>, rounded to the context.
\<close>

definition decimal_times_int :: "decimal \<Rightarrow> int \<Rightarrow> decimal" where
  "decimal_times_int d q = fix_context (Decimal (coefficient d * q) (exponent d))"

text \<open>
  A payload is a JSON document. The source builds documents as Python values, turns them
  into text with \<open>json.dumps\<close> and reads nested ones back with \<open>json.loads\<close>; here a
  document is the value itself, a dictionary being a list of entries in insertion order.
\<close>

datatype json =
    JNull
  | JBool bool
  | JInt int
  | JDec decimal
  | JStr string
  | JList "json list"
  | JObj "(string \<times> json) list"

text \<open>
  \<open>d[k] = v\<close>: an entry that exists keeps its place and takes the new value, a new
  one goes to the end. \<open>d.update(e)\<close> stores the entries of \<open>e\<close> in their order.
\<close>

fun dict_set :: "('k \<times> 'v) list \<Rightarrow> 'k \<Rightarrow> 'v \<Rightarrow> ('k \<times> 'v) list" where
  "dict_set [] k v = [(k, v)]"
| "dict_set ((k', v') # d) k v =
     (if k' = k then (k, v) # d else (k', v') # dict_set d k v)"

fun dict_update :: "('k \<times> 'v) list \<Rightarrow> ('k \<times> 'v) list \<Rightarrow> ('k \<times> 'v) list" where
  "dict_update d [] = d"
| "dict_update d ((k, v) # e) = dict_update (dict_set d k v) e"

definition dict_get :: "('k \<times> 'v) list \<Rightarrow> 'k \<Rightarrow> 'v option" where
  "dict_get d k = map_of d k"

definition keys :: "('k \<times> 'v) list \<Rightarrow> 'k list" where
  "keys d = map fst d"

text \<open>The entry \<open>k\<close> of a document that is a dictionary; \<open>None\<close> when there is none.\<close>

fun field :: "json \<Rightarrow> string \<Rightarrow> json option" where
  "field (JObj d) k = dict_get d k"
| "field _ k = None"

fun field_names :: "json \<Rightarrow> string set" where
  "field_names (JObj d) = set (keys d)"
| "field_names _ = {}"

section \<open>Model instances\<close>

text \<open>
  The primary key of a model instance: a number, a UUID written as text, or \<open>None\<close>
  (the \<open>id\<close> of an anonymous user, an unset foreign key).
\<close>

datatype pk_value = PkInt int | PkStr string | PkNone

text \<open>
  What the serializer sees of a model instance: the model's name, the primary key, and
  the value of each column read by name.
\<close>

record entity =
  model_name :: string
  pk :: pk_value
  attr :: "string \<Rightarrow> json"

record money =
  amount :: decimal
  currency :: string

record taxed_money =
  net :: money
  gross :: money

record address =
  addr_pk :: pk_value
  addr_country_code :: string
  addr_cols :: "string \<Rightarrow> json"

record warehouse =
  w_pk :: pk_value
  w_address :: "address option"
  w_cols :: "string \<Rightarrow> json"

record product_type =
  pt_name :: json
  pt_metadata :: json

record product =
  p_charge_taxes :: bool
  p_metadata :: json
  p_product_type :: product_type

record variant =
  v_pk :: pk_value
  v_product :: product

record order_line =
  ol_pk :: pk_value
  ol_currency :: string
  ol_variant :: "variant option"
  ol_allocations :: "(int \<times> pk_value) list"
  ol_unit_price :: taxed_money
  ol_total_price :: taxed_money
  ol_undiscounted_unit_price :: taxed_money
  ol_undiscounted_total_price :: taxed_money
  ol_unit_price_net_amount :: decimal
  ol_unit_price_gross_amount :: decimal
  ol_cols :: "string \<Rightarrow> json"

record stock =
  st_warehouse_id :: pk_value
  st_warehouse :: warehouse

record fulfillment_line =
  fl_pk :: pk_value
  fl_quantity :: int
  fl_order_line :: order_line
  fl_stock :: "stock option"
  fl_cols :: "string \<Rightarrow> json"

record fulfillment =
  f_pk :: pk_value
  f_lines :: "fulfillment_line list"
  f_cols :: "string \<Rightarrow> json"

record order =
  o_id :: pk_value
  o_currency :: string
  o_original_id :: pk_value
  o_channel :: entity
  o_shipping_method :: "entity option"
  o_collection_point :: "warehouse option"
  o_shipping_address :: "address option"
  o_billing_address :: "address option"
  o_lines :: "order_line list"
  o_fulfillments :: "fulfillment list"
  o_payments :: "entity list"
  o_discounts :: "entity list"
  o_shipping_price :: taxed_money
  o_total :: taxed_money
  o_undiscounted_total :: taxed_money
  o_cols :: "string \<Rightarrow> json"

record checkout =
  c_token :: pk_value
  c_currency :: string
  c_channel :: entity
  c_user :: "entity option"
  c_billing_address :: "address option"
  c_shipping_address :: "address option"
  c_shipping_method :: "entity option"
  c_collection_point :: "warehouse option"
  c_cols :: "string \<Rightarrow> json"

text \<open>
  The principal a payload is issued for: \<open>User\<close>, \<open>AnonymousUser\<close> (whose \<open>id\<close> is
  \<open>None\<close>) or \<open>App\<close>. An optional requestor is \<open>None\<close> when the source's test
  \<open>not requestor\<close> holds.
\<close>

datatype requestor =
    User (user_id: pk_value)
  | AnonymousUser
  | App (app_name: string)

record line_price_data =
  price_with_discounts :: taxed_money
  undiscounted_price :: taxed_money

record payment_app_data =
  app_pk :: int
  name :: string


section \<open>The environment of a call\<close>

text \<open>
  What the payload generators read from outside this module: the clock, the build's
  version, the id encoder (\<open>graphene.Node.to_global_id\<close>), graphene's \<open>to_camel_case\<close>,
  the price quantizer, the setting "prices include taxes", the order in which Python
  lists the elements of a set, the parser of payment-app ids, the weight of a variant in
  grams, the pricing engine (\<open>order_calculations\<close>, with the plugin manager it is given),
  \<open>Order.get_customer_email\<close>, the serializer of checkout lines (with the active
  discounts it is given), and the lookup of a warehouse for a country.
\<close>

record env =
  now_isoformat :: string
  version :: string
  to_global_id :: "string \<Rightarrow> pk_value \<Rightarrow> string"
  to_camel_case :: "string \<Rightarrow> string"
  quantize_price :: "decimal \<Rightarrow> string \<Rightarrow> decimal"
  include_taxes_in_prices :: bool
  list_of_set :: "string set \<Rightarrow> string list"
  from_payment_app_id :: "string \<Rightarrow> payment_app_data option"
  get_weight_g :: "variant \<Rightarrow> json"
  order_line_unit :: "order \<Rightarrow> order_line \<Rightarrow> order_line list \<Rightarrow> line_price_data"
  order_line_total :: "order \<Rightarrow> order_line \<Rightarrow> order_line list \<Rightarrow> line_price_data"
  order_line_tax_rate :: "order \<Rightarrow> order_line \<Rightarrow> order_line list \<Rightarrow> decimal"
  order_shipping :: "order \<Rightarrow> order_line list \<Rightarrow> taxed_money"
  order_shipping_tax_rate :: "order \<Rightarrow> order_line list \<Rightarrow> decimal"
  order_total :: "order \<Rightarrow> order_line list \<Rightarrow> taxed_money"
  order_undiscounted_total :: "order \<Rightarrow> order_line list \<Rightarrow> taxed_money"
  get_customer_email :: "order \<Rightarrow> json"
  serialize_checkout_lines :: "checkout \<Rightarrow> json list"
  warehouse_for_country :: "string \<Rightarrow> warehouse option"
  get_order_country :: "order \<Rightarrow> string"

section \<open>The price quantizer and the base price\<close>

text \<open>
  Modelled from the spec: \<open>quantize_price_fields\<close> of \<open>core/prices.py\<close> is not among the
  sources. Section 4.3 has the quantizer applied to every monetary field before it is
  emitted: each named column that holds a decimal is replaced by its quantized value,
  a column without a value stays as it is.
\<close>

definition quantize_price_fields :: "env \<Rightarrow> entity \<Rightarrow> string list \<Rightarrow> string \<Rightarrow> entity" where
  "quantize_price_fields E e flds cur =
     e\<lparr>attr := (\<lambda>n. if n \<in> set flds
                       then (case attr e n of JDec d \<Rightarrow> JDec (quantize_price E d cur) | v \<Rightarrow> v)
                       else attr e n)\<rparr>"

text \<open>
  Modelled from the spec: \<open>get_base_price\<close> of \<open>webhook/utils.py\<close> is not among the
  sources. Section 4.3: a single base amount chosen from net or gross by the flag
  "use gross as base".
\<close>

definition get_base_price :: "taxed_money \<Rightarrow> bool \<Rightarrow> decimal" where
  "get_base_price price use_gross_as_base_price =
     (if use_gross_as_base_price then amount (gross price) else amount (net price))"

section \<open>The payload serializer\<close>

text \<open>
  Modelled from the spec: \<open>PayloadSerializer\<close> of \<open>webhook/payload_serializers.py\<close> is not
  among the sources. Section 4.1: every record gets an id field from the id encoder,
  the named plain fields are copied, \<open>additional\<close> fields serialize a related object
  (\<open>null\<close> when absent) or a sequence of them (a list, empty when there are none) with a
  field subset, and \<open>extra\<close> entries, constants or functions of the entity, come last, so
  that they win over everything of the same name. The order of the input is kept.
  \<open>obj_id_name\<close> (a keyword of the calls in the source) names the id field.
\<close>

datatype related = Absent | One entity | Many "entity list"

datatype 'a extra = Const json | Call "'a \<Rightarrow> json"

fun extra_value :: "'a extra \<Rightarrow> 'a \<Rightarrow> json" where
  "extra_value (Const v) x = v"
| "extra_value (Call f) x = f x"

definition plain_record :: "env \<Rightarrow> entity \<Rightarrow> string \<Rightarrow> string list \<Rightarrow> (string \<times> json) list" where
  "plain_record E e obj_id_name flds =
     dict_update [(obj_id_name, JStr (to_global_id E (model_name e) (pk e)))]
       (map (\<lambda>f. (f, attr e f)) (filter (\<lambda>f. f \<noteq> obj_id_name) flds))"

fun related_payload :: "env \<Rightarrow> related \<Rightarrow> string list \<Rightarrow> json" where
  "related_payload E Absent sub = JNull"
| "related_payload E (One e) sub = JObj (plain_record E e ''id'' sub)"
| "related_payload E (Many es) sub = JList (map (\<lambda>e. JObj (plain_record E e ''id'' sub)) es)"

definition serialize_record ::
  "env \<Rightarrow> ('a \<Rightarrow> entity) \<Rightarrow> string \<Rightarrow> string list
     \<Rightarrow> (string \<times> ('a \<Rightarrow> related) \<times> string list) list \<Rightarrow> (string \<times> 'a extra) list
     \<Rightarrow> 'a \<Rightarrow> json" where
  "serialize_record E view obj_id_name flds additional extra x =
     JObj (dict_update
        (dict_update (plain_record E (view x) obj_id_name flds)
           (map (\<lambda>(n, acc, sub). (n, related_payload E (acc x) sub)) additional))
        (map (\<lambda>(n, v). (n, extra_value v x)) extra))"

definition serialize ::
  "env \<Rightarrow> ('a \<Rightarrow> entity) \<Rightarrow> 'a list \<Rightarrow> string \<Rightarrow> string list
     \<Rightarrow> (string \<times> ('a \<Rightarrow> related) \<times> string list) list \<Rightarrow> (string \<times> 'a extra) list
     \<Rightarrow> json list" where
  "serialize E view xs obj_id_name flds additional extra =
     map (serialize_record E view obj_id_name flds additional extra) xs"

fun one_or_absent :: "entity option \<Rightarrow> related" where
  "one_or_absent None = Absent"
| "one_or_absent (Some e) = One e"

section \<open>Requestor and meta\<close>

fun generate_requestor :: "env \<Rightarrow> requestor option \<Rightarrow> json" where
  "generate_requestor E None = JObj [(''id'', JNull), (''type'', JNull)]"
| "generate_requestor E (Some (User uid)) =
     JObj [(''id'', JStr (to_global_id E ''User'' uid)), (''type'', JStr ''user'')]"
| "generate_requestor E (Some AnonymousUser) =
     JObj [(''id'', JStr (to_global_id E ''User'' PkNone)), (''type'', JStr ''user'')]"
| "generate_requestor E (Some (App n)) = JObj [(''id'', JStr n), (''type'', JStr ''app'')]"

text \<open>The loop of \<open>generate_meta\<close> that stores every entry under its camel-case key.\<close>

fun camel_case_items :: "env \<Rightarrow> (string \<times> json) list \<Rightarrow> (string \<times> json) list \<Rightarrow> (string \<times> json) list" where
  "camel_case_items E meta [] = meta"
| "camel_case_items E meta ((key, val) # items) =
     camel_case_items E (dict_set meta (to_camel_case E key) val) items"

definition generate_meta :: "env \<Rightarrow> json \<Rightarrow> bool \<Rightarrow> (string \<times> json) list \<Rightarrow> (string \<times> json) list" where
  "generate_meta E requestor_data camel_case kwargs =
     (let meta_result = dict_update
            [(''issued_at'', JStr (now_isoformat E)),
             (''version'', JStr (version E)),
             (''issuing_principal'', requestor_data)] kwargs
      in if camel_case then camel_case_items E [] meta_result else meta_result)"

section \<open>Catalogue differences and the sale payload\<close>

text \<open>
  Modelled from the spec: the type \<open>NodeCatalogueInfo\<close> is declared outside the sources.
  Section 3: a mapping from a category name to a set of ids, a missing category being
  the empty set (a \<open>defaultdict(set)\<close>, as \<open>generate_sale_payload\<close> builds one).
\<close>

type_synonym catalogue = "string \<rightharpoonup> string set"

definition catalogue_get :: "catalogue \<Rightarrow> string \<Rightarrow> string set" where
  "catalogue_get c key = (case c key of None \<Rightarrow> {} | Some s \<Rightarrow> s)"

text \<open>Reading a missing key of a \<open>defaultdict\<close> also stores the default under it.\<close>

definition catalogue_touch :: "catalogue \<Rightarrow> string \<Rightarrow> catalogue" where
  "catalogue_touch c key = (case c key of None \<Rightarrow> c(key \<mapsto> {}) | Some s \<Rightarrow> c)"

definition calculate_added :: "env \<Rightarrow> catalogue \<Rightarrow> catalogue \<Rightarrow> string \<Rightarrow> string list" where
  "calculate_added E previous_catalogue current_catalogue key =
     list_of_set E (catalogue_get current_catalogue key - catalogue_get previous_catalogue key)"

definition calculate_removed :: "env \<Rightarrow> catalogue \<Rightarrow> catalogue \<Rightarrow> string \<Rightarrow> string list" where
  "calculate_removed E previous_catalogue current_catalogue key =
     calculate_added E current_catalogue previous_catalogue key"

definition id_list :: "string list \<Rightarrow> json" where
  "id_list ids = JList (map JStr ids)"

definition generate_sale_payload ::
  "env \<Rightarrow> entity \<Rightarrow> catalogue option \<Rightarrow> catalogue option \<Rightarrow> requestor option \<Rightarrow> json list" where
  "generate_sale_payload E sale previous_catalogue current_catalogue requestor =
     (let previous = (case previous_catalogue of None \<Rightarrow> Map.empty | Some c \<Rightarrow> c);
          current = (case current_catalogue of None \<Rightarrow> Map.empty | Some c \<Rightarrow> c)
      in serialize E id [sale] ''id'' [''id''] []
           (dict_update []
             [(''meta'', Const (JObj (generate_meta E (generate_requestor E requestor) False []))),
              (''categories_added'', Const (id_list (calculate_added E previous current ''categories''))),
              (''categories_removed'', Const (id_list (calculate_removed E previous current ''categories''))),
              (''collections_added'', Const (id_list (calculate_added E previous current ''collections''))),
              (''collections_removed'', Const (id_list (calculate_removed E previous current ''collections''))),
              (''products_added'', Const (id_list (calculate_added E previous current ''products''))),
              (''products_removed'', Const (id_list (calculate_removed E previous current ''products''))),
              (''variants_added'', Const (id_list (calculate_added E previous current ''variants''))),
              (''variants_removed'', Const (id_list (calculate_removed E previous current ''variants'')))]))"


section \<open>Views of the model instances\<close>

text \<open>
  Each typed instance as the serializer reads it. A column that the code also uses as a
  typed value (\<open>currency\<close>, \<open>quantity\<close>) is read from there.
\<close>

definition address_entity :: "address \<Rightarrow> entity" where
  "address_entity a = \<lparr>model_name = ''Address'', pk = addr_pk a, attr = addr_cols a\<rparr>"

definition warehouse_entity :: "warehouse \<Rightarrow> entity" where
  "warehouse_entity w = \<lparr>model_name = ''Warehouse'', pk = w_pk w, attr = w_cols w\<rparr>"

definition order_line_entity :: "order_line \<Rightarrow> entity" where
  "order_line_entity l =
     \<lparr>model_name = ''OrderLine'', pk = ol_pk l,
      attr = (ol_cols l)(''currency'' := JStr (ol_currency l))\<rparr>"

definition fulfillment_line_entity :: "fulfillment_line \<Rightarrow> entity" where
  "fulfillment_line_entity fl =
     \<lparr>model_name = ''FulfillmentLine'', pk = fl_pk fl,
      attr = (fl_cols fl)(''quantity'' := JInt (fl_quantity fl))\<rparr>"

definition fulfillment_entity :: "fulfillment \<Rightarrow> entity" where
  "fulfillment_entity f = \<lparr>model_name = ''Fulfillment'', pk = f_pk f, attr = f_cols f\<rparr>"

definition order_entity :: "order \<Rightarrow> entity" where
  "order_entity ord =
     \<lparr>model_name = ''Order'', pk = o_id ord,
      attr = (o_cols ord)(''currency'' := JStr (o_currency ord))\<rparr>"

definition checkout_entity :: "checkout \<Rightarrow> entity" where
  "checkout_entity c =
     \<lparr>model_name = ''Checkout'', pk = c_token c,
      attr = (c_cols c)(''currency'' := JStr (c_currency c))\<rparr>"

fun address_related :: "address option \<Rightarrow> related" where
  "address_related None = Absent"
| "address_related (Some a) = One (address_entity a)"

text \<open>
  \<open>xs[0]\<close> on the records of a serialized list. It is applied to the result of
  serializing a list of one entity only, which holds one record.
\<close>

fun item0 :: "json list \<Rightarrow> json" where
  "item0 (r # rs) = r"
| "item0 [] = JNull"

text \<open>A primary key as a value of a document, and \<open>str\<close> of a primary key.\<close>

fun pk_json :: "pk_value \<Rightarrow> json" where
  "pk_json (PkInt i) = JInt i"
| "pk_json (PkStr s) = JStr s"
| "pk_json PkNone = JNull"

fun str_of_nat :: "nat \<Rightarrow> string" where
  "str_of_nat n =
     (if n < 10 then [char_of (48 + n)] else str_of_nat (n div 10) @ [char_of (48 + n mod 10)])"

fun str_of_pk :: "pk_value \<Rightarrow> string" where
  "str_of_pk (PkStr s) = s"
| "str_of_pk (PkInt i) = (if i < 0 then ''-'' @ str_of_nat (nat (- i)) else str_of_nat (nat i))"
| "str_of_pk PkNone = ''None''"

section \<open>Field tables\<close>

definition ADDRESS_FIELDS :: "string list" where
  "ADDRESS_FIELDS =
     [''first_name'', ''last_name'', ''company_name'', ''street_address_1'',
      ''street_address_2'', ''city'', ''city_area'', ''postal_code'', ''country'',
      ''country_area'', ''phone'']"

definition ORDER_FIELDS :: "string list" where
  "ORDER_FIELDS =
     [''status'', ''origin'', ''shipping_method_name'', ''collection_point_name'',
      ''weight'', ''language_code'', ''private_metadata'', ''metadata'']"

definition ORDER_LINE_FIELDS :: "string list" where
  "ORDER_LINE_FIELDS =
     [''product_name'', ''variant_name'', ''translated_product_name'',
      ''translated_variant_name'', ''product_sku'', ''quantity'', ''currency'',
      ''unit_discount_amount'', ''unit_discount_type'', ''unit_discount_reason'',
      ''sale_id'', ''voucher_code'']"

section \<open>Order lines\<close>

definition prepare_order_lines_allocations_payload :: "env \<Rightarrow> order_line \<Rightarrow> json" where
  "prepare_order_lines_allocations_payload E line =
     JList (map (\<lambda>(quantity_allocated, warehouse_id).
                   JObj (dict_set [(''quantity_allocated'', JInt quantity_allocated),
                                   (''warehouse_id'', pk_json warehouse_id)]
                           ''warehouse_id'' (JStr (to_global_id E ''Warehouse'' warehouse_id))))
                (ol_allocations line))"

definition charge_taxes :: "order_line \<Rightarrow> json" where
  "charge_taxes order_line =
     (case ol_variant order_line of None \<Rightarrow> JNull
      | Some variant \<Rightarrow> JBool (p_charge_taxes (v_product variant)))"

definition get_product_metadata_for_order_line :: "order_line \<Rightarrow> json" where
  "get_product_metadata_for_order_line line =
     (case ol_variant line of None \<Rightarrow> JNull
      | Some variant \<Rightarrow> p_metadata (v_product variant))"

definition get_product_type_metadata_for_order_line :: "order_line \<Rightarrow> json" where
  "get_product_type_metadata_for_order_line line =
     (case ol_variant line of None \<Rightarrow> JNull
      | Some variant \<Rightarrow> pt_metadata (p_product_type (v_product variant)))"

definition ORDER_LINES_EXTRA_DICT_DATA :: "env \<Rightarrow> (string \<times> order_line extra) list" where
  "ORDER_LINES_EXTRA_DICT_DATA E =
     dict_update []
       [(''id'', Call (\<lambda>l. JStr (to_global_id E ''OrderLine'' (ol_pk l)))),
        (''product_variant_id'', Call (\<lambda>l. ol_cols l ''product_variant_id'')),
        (''allocations'', Call (\<lambda>l. prepare_order_lines_allocations_payload E l)),
        (''charge_taxes'', Call (\<lambda>l. charge_taxes l)),
        (''product_metadata'', Call (\<lambda>l. get_product_metadata_for_order_line l)),
        (''product_type_metadata'', Call (\<lambda>l. get_product_type_metadata_for_order_line l))]"

text \<open>
  The view of a line after \<open>quantize_price_fields(line, ["unit_discount_amount"],
  line.currency)\<close>.
\<close>

definition quantized_order_line :: "env \<Rightarrow> order_line \<Rightarrow> entity" where
  "quantized_order_line E line =
     quantize_price_fields E (order_line_entity line) [''unit_discount_amount''] (ol_currency line)"

definition generate_order_lines_payload_with_taxes ::
  "env \<Rightarrow> order \<Rightarrow> order_line list \<Rightarrow> json list" where
  "generate_order_lines_payload_with_taxes E ord lines =
     (let get_unit_price = (\<lambda>line. price_with_discounts (order_line_unit E ord line lines));
          get_undiscounted_unit_price = (\<lambda>line. undiscounted_price (order_line_unit E ord line lines));
          get_total_price = (\<lambda>line. price_with_discounts (order_line_total E ord line lines));
          get_undiscounted_total_price = (\<lambda>line. undiscounted_price (order_line_total E ord line lines));
          get_tax_rate = (\<lambda>line. order_line_tax_rate E ord line lines)
      in serialize E (quantized_order_line E) lines ''id'' ORDER_LINE_FIELDS []
           (dict_update (ORDER_LINES_EXTRA_DICT_DATA E)
             [(''unit_price_net_amount'', Call (\<lambda>l. JDec (amount (net (get_unit_price l))))),
              (''unit_price_gross_amount'', Call (\<lambda>l. JDec (amount (gross (get_unit_price l))))),
              (''total_price_net_amount'', Call (\<lambda>l. JDec (amount (net (get_total_price l))))),
              (''total_price_gross_amount'', Call (\<lambda>l. JDec (amount (gross (get_total_price l))))),
              (''undiscounted_unit_price_net_amount'',
                 Call (\<lambda>l. JDec (amount (net (get_undiscounted_unit_price l))))),
              (''undiscounted_unit_price_gross_amount'',
                 Call (\<lambda>l. JDec (amount (gross (get_undiscounted_unit_price l))))),
              (''undiscounted_total_price_net_amount'',
                 Call (\<lambda>l. JDec (amount (net (get_undiscounted_total_price l))))),
              (''undiscounted_total_price_gross_amount'',
                 Call (\<lambda>l. JDec (amount (gross (get_undiscounted_total_price l))))),
              (''tax_rate'', Call (\<lambda>l. JDec (get_tax_rate l)))]))"

definition generate_order_lines_payload_without_taxes ::
  "env \<Rightarrow> order \<Rightarrow> order_line list \<Rightarrow> bool \<Rightarrow> json list" where
  "generate_order_lines_payload_without_taxes E ord lines use_gross_as_base_price =
     (let untaxed_price_amount =
            (\<lambda>price. quantize_price E (get_base_price price use_gross_as_base_price) (o_currency ord))
      in serialize E (quantized_order_line E) lines ''id'' ORDER_LINE_FIELDS []
           (dict_update (ORDER_LINES_EXTRA_DICT_DATA E)
             [(''unit_price_base_amount'', Call (\<lambda>l. JDec (untaxed_price_amount (ol_unit_price l)))),
              (''total_price_base_amount'', Call (\<lambda>l. JDec (untaxed_price_amount (ol_total_price l)))),
              (''undiscounted_unit_price_base_amount'',
                 Call (\<lambda>l. JDec (untaxed_price_amount (ol_undiscounted_unit_price l)))),
              (''undiscounted_total_price_base_amount'',
                 Call (\<lambda>l. JDec (untaxed_price_amount (ol_undiscounted_total_price l))))]))"

section \<open>Fulfillment lines\<close>

definition generate_fulfillment_lines_payload :: "env \<Rightarrow> fulfillment \<Rightarrow> json list" where
  "generate_fulfillment_lines_payload E fulfillment =
     serialize E fulfillment_line_entity (f_lines fulfillment) ''id'' [''quantity''] []
       (dict_update []
         [(''product_name'', Call (\<lambda>fl. ol_cols (fl_order_line fl) ''product_name'')),
          (''variant_name'', Call (\<lambda>fl. ol_cols (fl_order_line fl) ''variant_name'')),
          (''product_sku'', Call (\<lambda>fl. ol_cols (fl_order_line fl) ''product_sku'')),
          (''product_variant_id'', Call (\<lambda>fl. ol_cols (fl_order_line fl) ''product_variant_id'')),
          (''weight'', Call (\<lambda>fl. case ol_variant (fl_order_line fl) of
                                     Some variant \<Rightarrow> get_weight_g E variant | None \<Rightarrow> JNull)),
          (''weight_unit'', Const (JStr ''gram'')),
          (''product_type'', Call (\<lambda>fl. case ol_variant (fl_order_line fl) of
                                     Some variant \<Rightarrow> pt_name (p_product_type (v_product variant))
                                   | None \<Rightarrow> JNull)),
          (''unit_price_net'', Call (\<lambda>fl. JDec (quantize_price E
              (ol_unit_price_net_amount (fl_order_line fl)) (ol_currency (fl_order_line fl))))),
          (''unit_price_gross'', Call (\<lambda>fl. JDec (quantize_price E
              (ol_unit_price_gross_amount (fl_order_line fl)) (ol_currency (fl_order_line fl))))),
          (''undiscounted_unit_price_net'', Call (\<lambda>fl. JDec (quantize_price E
              (amount (net (ol_undiscounted_unit_price (fl_order_line fl))))
              (ol_currency (fl_order_line fl))))),
          (''undiscounted_unit_price_gross'', Call (\<lambda>fl. JDec (quantize_price E
              (amount (gross (ol_undiscounted_unit_price (fl_order_line fl))))
              (ol_currency (fl_order_line fl))))),
          (''total_price_net_amount'', Call (\<lambda>fl. JDec (decimal_times_int
              (quantize_price E (amount (net (ol_undiscounted_unit_price (fl_order_line fl))))
                 (ol_currency (fl_order_line fl)))
              (fl_quantity fl)))),
          (''total_price_gross_amount'', Call (\<lambda>fl. JDec (decimal_times_int
              (quantize_price E (amount (gross (ol_undiscounted_unit_price (fl_order_line fl))))
                 (ol_currency (fl_order_line fl)))
              (fl_quantity fl)))),
          (''currency'', Call (\<lambda>fl. JStr (ol_currency (fl_order_line fl)))),
          (''warehouse_id'', Call (\<lambda>fl. case fl_stock fl of
                                     Some st \<Rightarrow> JStr (to_global_id E ''Warehouse'' (st_warehouse_id st))
                                   | None \<Rightarrow> JNull)),
          (''sale_id'', Call (\<lambda>fl. ol_cols (fl_order_line fl) ''sale_id'')),
          (''voucher_code'', Call (\<lambda>fl. ol_cols (fl_order_line fl) ''voucher_code''))])"


section \<open>The order payload\<close>

definition generate_collection_point_payload :: "env \<Rightarrow> warehouse \<Rightarrow> json list" where
  "generate_collection_point_payload E warehouse =
     (let collection_point_fields = [''name'', ''email'', ''click_and_collect_option'', ''is_private'']
      in serialize E warehouse_entity [warehouse] ''id'' collection_point_fields
           [(''address'', (\<lambda>w. address_related (w_address w)), ADDRESS_FIELDS)] [])"

definition generate_order_payment_payload :: "env \<Rightarrow> entity list \<Rightarrow> json list" where
  "generate_order_payment_payload E payments =
     (let payment_fields =
            [''gateway'', ''payment_method_type'', ''cc_brand'', ''is_active'', ''partial'',
             ''charge_status'', ''psp_reference'', ''total'', ''captured_amount'', ''currency'',
             ''billing_email'', ''billing_first_name'', ''billing_last_name'',
             ''billing_company_name'', ''billing_address_1'', ''billing_address_2'',
             ''billing_city'', ''billing_city_area'', ''billing_postal_code'',
             ''billing_country_code'', ''billing_country_area'']
      in serialize E id payments ''id'' payment_fields []
           (dict_update []
             [(''created'', Call (\<lambda>p. attr p ''created_at'')),
              (''modified'', Call (\<lambda>p. attr p ''modified_at''))]))"

text \<open>
  \<open>_generate_order_payload\<close>. The fulfillments, payments and discounts of the order are
  quantized in place before they are serialized.
\<close>

definition private_generate_order_payload ::
  "env \<Rightarrow> order \<Rightarrow> requestor option \<Rightarrow> bool \<Rightarrow> (string \<times> json) list \<Rightarrow> json list \<Rightarrow> bool
     \<Rightarrow> json list" where
  "private_generate_order_payload E ord requestor with_meta order_prices_data order_lines_payload
       included_taxes_in_prices =
     (let fulfillment_fields =
            [''status'', ''tracking_number'', ''shipping_refund_amount'', ''total_refund_amount''];
          fulfillment_price_fields = [''shipping_refund_amount'', ''total_refund_amount''];
          payment_price_fields = [''captured_amount'', ''total''];
          discount_fields =
            [''type'', ''value_type'', ''value'', ''amount_value'', ''name'', ''translated_name'',
             ''reason''];
          discount_price_fields = [''amount_value''];
          channel_fields = [''slug'', ''currency_code''];
          shipping_method_fields = [''name'', ''type'', ''currency'', ''price_amount''];
          fulfillments = o_fulfillments ord;
          payments = map (\<lambda>payment. quantize_price_fields E payment payment_price_fields (o_currency ord))
                       (o_payments ord);
          discounts = map (\<lambda>discount. quantize_price_fields E discount discount_price_fields (o_currency ord))
                        (o_discounts ord);
          fulfillments_data =
            serialize E
              (\<lambda>fulfillment. quantize_price_fields E (fulfillment_entity fulfillment)
                                fulfillment_price_fields (o_currency ord))
              fulfillments ''id'' fulfillment_fields []
              (dict_update []
                [(''lines'', Call (\<lambda>f. JList (generate_fulfillment_lines_payload E f))),
                 (''created'', Call (\<lambda>f. f_cols f ''created_at''))]);
          extra_dict_data =
            dict_update []
              ([(''id'', Const (JStr (to_global_id E ''Order'' (o_id ord)))),
                (''token'', Const (JStr (str_of_pk (o_id ord)))),
                (''user_email'', Const (get_customer_email E ord)),
                (''created'', Const (o_cols ord ''created_at'')),
                (''original'', Const (JStr (to_global_id E ''Order'' (o_original_id ord)))),
                (''lines'', Const (JList order_lines_payload)),
                (''included_taxes_in_prices'', Const (JBool included_taxes_in_prices))]
               @ map (\<lambda>(k, v). (k, Const v)) order_prices_data
               @ [(''fulfillments'', Const (JList fulfillments_data)),
                  (''collection_point'',
                     Const (case o_collection_point ord of
                              Some collection_point \<Rightarrow>
                                item0 (generate_collection_point_payload E collection_point)
                            | None \<Rightarrow> JNull)),
                  (''payments'', Const (JList (generate_order_payment_payload E payments)))]);
          extra_dict_data =
            (if with_meta
             then dict_set extra_dict_data ''meta''
                    (Const (JObj (generate_meta E (generate_requestor E requestor) False [])))
             else extra_dict_data)
      in serialize E order_entity [ord] ''id'' ORDER_FIELDS
           [(''channel'', (\<lambda>x. One (o_channel x)), channel_fields),
            (''shipping_method'', (\<lambda>x. one_or_absent (o_shipping_method x)), shipping_method_fields),
            (''shipping_address'', (\<lambda>x. address_related (o_shipping_address x)), ADDRESS_FIELDS),
            (''billing_address'', (\<lambda>x. address_related (o_billing_address x)), ADDRESS_FIELDS),
            (''discounts'', (\<lambda>_. Many discounts), discount_fields)]
           extra_dict_data)"

definition generate_order_prices_data_with_taxes ::
  "env \<Rightarrow> order \<Rightarrow> order_line list \<Rightarrow> (string \<times> json) list" where
  "generate_order_prices_data_with_taxes E ord lines =
     (let shipping = order_shipping E ord lines;
          shipping_tax_rate = order_shipping_tax_rate E ord lines;
          total = order_total E ord lines;
          undiscounted_total = order_undiscounted_total E ord lines
      in dict_update []
           [(''shipping_price_net_amount'', JDec (amount (net shipping))),
            (''shipping_price_gross_amount'', JDec (amount (gross shipping))),
            (''shipping_tax_rate'', JDec shipping_tax_rate),
            (''total_net_amount'', JDec (amount (net total))),
            (''total_gross_amount'', JDec (amount (gross total))),
            (''undiscounted_total_net_amount'', JDec (amount (net undiscounted_total))),
            (''undiscounted_total_gross_amount'', JDec (amount (gross undiscounted_total)))])"

definition generate_order_prices_data_without_taxes ::
  "env \<Rightarrow> order \<Rightarrow> bool \<Rightarrow> (string \<times> json) list" where
  "generate_order_prices_data_without_taxes E ord use_gross_as_base_price =
     (let untaxed_price_amount =
            (\<lambda>price. quantize_price E (get_base_price price use_gross_as_base_price) (o_currency ord))
      in dict_update []
           [(''shipping_price_base_amount'', JDec (untaxed_price_amount (o_shipping_price ord))),
            (''total_base_amount'', JDec (untaxed_price_amount (o_total ord))),
            (''undiscounted_total_base_amount'', JDec (untaxed_price_amount (o_undiscounted_total ord)))])"

definition generate_order_payload :: "env \<Rightarrow> order \<Rightarrow> requestor option \<Rightarrow> bool \<Rightarrow> json list" where
  "generate_order_payload E ord requestor with_meta =
     (let lines = o_lines ord
      in private_generate_order_payload E ord requestor with_meta
           (generate_order_prices_data_with_taxes E ord lines)
           (generate_order_lines_payload_with_taxes E ord lines)
           (include_taxes_in_prices E))"

definition generate_order_payload_without_taxes ::
  "env \<Rightarrow> order \<Rightarrow> requestor option \<Rightarrow> bool \<Rightarrow> json list" where
  "generate_order_payload_without_taxes E ord requestor with_meta =
     (let lines = o_lines ord;
          included_taxes_in_prices = include_taxes_in_prices E
      in private_generate_order_payload E ord requestor with_meta
           (generate_order_prices_data_without_taxes E ord included_taxes_in_prices)
           (generate_order_lines_payload_without_taxes E ord lines included_taxes_in_prices)
           included_taxes_in_prices)"

section \<open>The checkout payload\<close>

definition generate_checkout_payload :: "env \<Rightarrow> checkout \<Rightarrow> requestor option \<Rightarrow> json list" where
  "generate_checkout_payload E checkout requestor =
     (let checkout_fields =
            [''last_change'', ''status'', ''email'', ''quantity'', ''currency'', ''discount_amount'',
             ''discount_name'', ''language_code'', ''private_metadata'', ''metadata''];
          checkout_price_fields = [''discount_amount''];
          user_fields = [''email'', ''first_name'', ''last_name''];
          channel_fields = [''slug'', ''currency_code''];
          shipping_method_fields = [''name'', ''type'', ''currency'', ''price_amount''];
          lines_dict_data = serialize_checkout_lines E checkout;
          warehouse =
            (case c_shipping_address checkout of
               Some shipping_address \<Rightarrow> warehouse_for_country E (addr_country_code shipping_address)
             | None \<Rightarrow> None)
      in serialize E
           (\<lambda>c. quantize_price_fields E (checkout_entity c) checkout_price_fields (c_currency c))
           [checkout] ''token'' checkout_fields
           [(''channel'', (\<lambda>c. One (c_channel c)), channel_fields),
            (''user'', (\<lambda>c. one_or_absent (c_user c)), user_fields),
            (''billing_address'', (\<lambda>c. address_related (c_billing_address c)), ADDRESS_FIELDS),
            (''shipping_address'', (\<lambda>c. address_related (c_shipping_address c)), ADDRESS_FIELDS),
            (''shipping_method'', (\<lambda>c. one_or_absent (c_shipping_method c)), shipping_method_fields),
            (''warehouse_address'',
               (\<lambda>c. case warehouse of Some w \<Rightarrow> address_related (w_address w) | None \<Rightarrow> Absent),
               ADDRESS_FIELDS)]
           (dict_update []
             [(''lines'', Const (JList lines_dict_data)),
              (''collection_point'',
                 Const (case c_collection_point checkout of
                          Some collection_point \<Rightarrow>
                            item0 (generate_collection_point_payload E collection_point)
                        | None \<Rightarrow> JNull)),
              (''meta'', Const (JObj (generate_meta E (generate_requestor E requestor) False []))),
              (''created'', Const (c_cols checkout ''created_at''))]))"


section \<open>Customer, page, fulfillment and payment payloads\<close>

record customer =
  cu_pk :: pk_value
  cu_default_shipping_address :: "address option"
  cu_default_billing_address :: "address option"
  cu_addresses :: "address list"
  cu_cols :: "string \<Rightarrow> json"

definition customer_entity :: "customer \<Rightarrow> entity" where
  "customer_entity c = \<lparr>model_name = ''User'', pk = cu_pk c, attr = cu_cols c\<rparr>"

definition generate_customer_payload :: "env \<Rightarrow> customer \<Rightarrow> requestor option \<Rightarrow> json list" where
  "generate_customer_payload E customer requestor =
     serialize E customer_entity [customer] ''id''
       [''email'', ''first_name'', ''last_name'', ''is_active'', ''date_joined'', ''language_code'',
        ''private_metadata'', ''metadata'']
       [(''default_shipping_address'',
           (\<lambda>c. address_related (cu_default_shipping_address c)), ADDRESS_FIELDS),
        (''default_billing_address'',
           (\<lambda>c. address_related (cu_default_billing_address c)), ADDRESS_FIELDS),
        (''addresses'', (\<lambda>c. Many (map address_entity (cu_addresses c))), ADDRESS_FIELDS)]
       (dict_update []
         [(''meta'', Const (JObj (generate_meta E (generate_requestor E requestor) False [])))])"

definition generate_page_payload :: "env \<Rightarrow> entity \<Rightarrow> requestor option \<Rightarrow> json list" where
  "generate_page_payload E page requestor =
     (let page_fields =
            [''private_metadata'', ''metadata'', ''title'', ''content'', ''published_at'',
             ''is_published'', ''updated_at'']
      in serialize E id [page] ''id'' page_fields []
           (dict_update []
             [(''data'', Const (JObj (generate_meta E (generate_requestor E requestor) False []))),
              (''publication_date'', Const (attr page ''published_at''))]))"

text \<open>The exceptions that the functions below can raise.\<close>

datatype error = UnboundLocalError | AttributeError | IndexError | KeyError | TypeError

text \<open>
  \<open>generate_fulfillment_payload\<close>; the order of the fulfillment is passed next to it.
  The accessor \<open>warehouse.address\<close> raises when no warehouse was found.
\<close>

definition generate_fulfillment_payload ::
  "env \<Rightarrow> fulfillment \<Rightarrow> order \<Rightarrow> requestor option \<Rightarrow> error + json list" where
  "generate_fulfillment_payload E fulfillment ord requestor =
     (let fulfillment_fields =
            [''status'', ''tracking_code'', ''order__user_email'', ''shipping_refund_amount'',
             ''total_refund_amount''];
          fulfillment_price_fields = [''shipping_refund_amount'', ''total_refund_amount''];
          order_country = get_order_country E ord;
          warehouse =
            (case f_lines fulfillment of
               fulfillment_line # _ \<Rightarrow>
                 (case fl_stock fulfillment_line of
                    Some st \<Rightarrow> Some (st_warehouse st)
                  | None \<Rightarrow> warehouse_for_country E order_country)
             | [] \<Rightarrow> warehouse_for_country E order_country)
      in case warehouse of
           None \<Rightarrow> Inl AttributeError
         | Some w \<Rightarrow>
             Inr (serialize E
                    (\<lambda>f. quantize_price_fields E (fulfillment_entity f) fulfillment_price_fields
                           (o_currency ord))
                    [fulfillment] ''id'' fulfillment_fields
                    [(''warehouse_address'', (\<lambda>f. address_related (w_address w)), ADDRESS_FIELDS)]
                    (dict_update []
                      [(''order'', Const (item0 (generate_order_payload E ord None False))),
                       (''lines'', Const (JList (generate_fulfillment_lines_payload E fulfillment))),
                       (''meta'',
                          Const (JObj (generate_meta E (generate_requestor E requestor) False [])))])))"

text \<open>
  \<open>PaymentData\<close> is a dataclass declared outside the sources; the code reads its fields
  \<open>gateway\<close>, \<open>amount\<close> and \<open>currency\<close>. \<open>pd_other\<close> holds the remaining fields, as
  \<open>asdict\<close> gives them.
\<close>

record payment_data =
  pd_gateway :: string
  pd_amount :: decimal
  pd_currency :: string
  pd_other :: "(string \<times> json) list"

definition asdict :: "payment_data \<Rightarrow> (string \<times> json) list" where
  "asdict payment_data =
     [(''gateway'', JStr (pd_gateway payment_data)),
      (''amount'', JDec (pd_amount payment_data)),
      (''currency'', JStr (pd_currency payment_data))] @ pd_other payment_data"

definition generate_payment_payload :: "env \<Rightarrow> payment_data \<Rightarrow> requestor option \<Rightarrow> json" where
  "generate_payment_payload E payment_data requestor =
     (let data = asdict payment_data;
          data = dict_set data ''amount''
                   (JDec (quantize_price E (pd_amount payment_data) (pd_currency payment_data)))
      in case from_payment_app_id E (pd_gateway payment_data) of
           Some payment_app_data \<Rightarrow>
             JObj (dict_set (dict_set data ''payment_method'' (JStr (name payment_app_data)))
                     ''meta'' (JObj (generate_meta E (generate_requestor E requestor) False [])))
         | None \<Rightarrow> JObj data)"

section \<open>Sample payloads\<close>

text \<open>\<open>str(uuid.UUID(int=n))\<close>: 32 hexadecimal digits in groups of 8, 4, 4, 4 and 12.\<close>

definition hex_char :: "nat \<Rightarrow> char" where
  "hex_char k = ''0123456789abcdef'' ! (k mod 16)"

fun hex_digits :: "nat \<Rightarrow> nat \<Rightarrow> string" where
  "hex_digits 0 n = []"
| "hex_digits (Suc w) n = hex_digits w (n div 16) @ [hex_char n]"

definition uuid_str :: "nat \<Rightarrow> string" where
  "uuid_str n =
     (let h = hex_digits 32 n
      in take 8 h @ ''-'' @ take 4 (drop 8 h) @ ''-'' @ take 4 (drop 12 h) @ ''-''
           @ take 4 (drop 16 h) @ ''-'' @ drop 20 h)"

text \<open>
  \<open>_remove_token_from_checkout\<close>: \<open>checkout_data[0]["token"] = str(uuid.UUID(int=1))\<close>
  on the parsed payload.
\<close>

fun remove_token_from_checkout :: "json \<Rightarrow> error + json" where
  "remove_token_from_checkout (JList (JObj d # rest)) =
     Inr (JList (JObj (dict_set d ''token'' (JStr (uuid_str 1))) # rest))"
| "remove_token_from_checkout (JList []) = Inl IndexError"
| "remove_token_from_checkout (JObj d) = Inl KeyError"
| "remove_token_from_checkout _ = Inl TypeError"

text \<open>
  The event names that \<open>generate_sample_payload\<close> tells apart, constants of
  \<open>WebhookEventAsyncType\<close>; \<open>OTHER\<close> is any other name.
\<close>

datatype event_name =
    CUSTOMER_CREATED | CUSTOMER_UPDATED
  | PRODUCT_CREATED
  | CHECKOUT_UPDATED | CHECKOUT_CREATED
  | PAGE_CREATED | PAGE_DELETED | PAGE_UPDATED
  | FULFILLMENT_CREATED
  | ORDER_CREATED | ORDER_FULLY_PAID | ORDER_FULFILLED | ORDER_CANCELLED | ORDER_UPDATED
  | OTHER string

text \<open>
  The persisted entities and the collaborators of sample generation: the tables, the
  random choice of \<open>order_by("?")\<close>, the anonymizers, the fake user, the status constants
  of the filters, and \<open>generate_product_payload\<close>, which no property below looks into
  and which may raise. A fulfillment is stored with its order.
\<close>

record 'p sample_env =
  db_orders :: "order list"
  db_checkouts :: "checkout list"
  db_products :: "'p list"
  db_pages :: "entity list"
  db_fulfillments :: "(fulfillment \<times> order) list"
  random_index :: "nat \<Rightarrow> nat"
  anonymize_order :: "order \<Rightarrow> order"
  anonymize_checkout :: "checkout \<Rightarrow> checkout"
  generate_fake_user :: customer
  generate_product_payload :: "'p \<Rightarrow> error + json list"
  OrderStatus_UNFULFILLED :: json
  OrderStatus_CANCELED :: json
  ChargeStatus_FULLY_CHARGED :: json
  FulfillmentStatus_FULFILLED :: json

text \<open>\<open>_get_sample_object\<close>: any object of the query, \<open>None\<close> when there is none.\<close>

definition get_sample_object :: "'p sample_env \<Rightarrow> 'a list \<Rightarrow> 'a option" where
  "get_sample_object S qs =
     (if qs = [] then None else Some (qs ! (random_index S (length qs) mod length qs)))"

definition generate_sample_order_payload ::
  "'p sample_env \<Rightarrow> env \<Rightarrow> event_name \<Rightarrow> json list option" where
  "generate_sample_order_payload S E event_name =
     (let order_qs = db_orders S;
          ord =
            (if event_name = ORDER_CREATED
             then get_sample_object S
                    (filter (\<lambda>x. o_cols x ''status'' = OrderStatus_UNFULFILLED S) order_qs)
             else if event_name = ORDER_FULLY_PAID
             then get_sample_object S
                    (filter (\<lambda>x. list_ex (\<lambda>p. attr p ''charge_status'' = ChargeStatus_FULLY_CHARGED S)
                                    (o_payments x)) order_qs)
             else if event_name = ORDER_FULFILLED
             then get_sample_object S
                    (filter (\<lambda>x. list_ex (\<lambda>f. f_cols f ''status'' = FulfillmentStatus_FULFILLED S)
                                    (o_fulfillments x)) order_qs)
             else if event_name \<in> set [ORDER_CANCELLED, ORDER_UPDATED]
             then get_sample_object S
                    (filter (\<lambda>x. o_cols x ''status'' = OrderStatus_CANCELED S) order_qs)
             else None)
      in case ord of
           Some x \<Rightarrow> Some (generate_order_payload E (anonymize_order S x) None True)
         | None \<Rightarrow> None)"

text \<open>
  The local variable \<open>payload\<close> of \<open>generate_sample_payload\<close>: a branch may leave it
  unbound, and the last line, \<open>json.loads(payload) if payload else None\<close>, reads it.
\<close>

datatype local_payload = Unbound | Bound "json option"

fun return_payload :: "local_payload \<Rightarrow> error + json option" where
  "return_payload Unbound = Inl UnboundLocalError"
| "return_payload (Bound None) = Inr None"
| "return_payload (Bound (Some payload)) = Inr (Some payload)"

definition generate_sample_payload :: "'p sample_env \<Rightarrow> env \<Rightarrow> event_name \<Rightarrow> error + json option" where
  "generate_sample_payload S E event_name =
     (let checkout_events = [CHECKOUT_UPDATED, CHECKOUT_CREATED];
          pages_events = [PAGE_CREATED, PAGE_DELETED, PAGE_UPDATED];
          user_events = [CUSTOMER_CREATED, CUSTOMER_UPDATED]
      in if event_name \<in> set user_events
         then return_payload
                (Bound (Some (JList (generate_customer_payload E (generate_fake_user S) None))))
         else if event_name = PRODUCT_CREATED
         then (case get_sample_object S (db_products S) of
                 Some product \<Rightarrow>
                   (case generate_product_payload S product of
                      Inl e \<Rightarrow> Inl e
                    | Inr payload \<Rightarrow> return_payload (Bound (Some (JList payload))))
               | None \<Rightarrow> return_payload (Bound None))
         else if event_name \<in> set checkout_events
         then (case get_sample_object S (db_checkouts S) of
                 Some checkout \<Rightarrow>
                   (let anonymized_checkout = anonymize_checkout S checkout;
                        checkout_payload = JList (generate_checkout_payload E anonymized_checkout None)
                    in case remove_token_from_checkout checkout_payload of
                         Inl e \<Rightarrow> Inl e
                       | Inr payload \<Rightarrow> return_payload (Bound (Some payload)))
               | None \<Rightarrow> return_payload Unbound)
         else if event_name \<in> set pages_events
         then (case get_sample_object S (db_pages S) of
                 Some page \<Rightarrow> return_payload (Bound (Some (JList (generate_page_payload E page None))))
               | None \<Rightarrow> return_payload Unbound)
         else if event_name = FULFILLMENT_CREATED
         then (case get_sample_object S (db_fulfillments S) of
                 None \<Rightarrow> Inl AttributeError
               | Some (fulfillment, ord) \<Rightarrow>
                   (case generate_fulfillment_payload E fulfillment (anonymize_order S ord) None of
                      Inl e \<Rightarrow> Inl e
                    | Inr payload \<Rightarrow> return_payload (Bound (Some (JList payload)))))
         else return_payload (Bound (map_option JList (generate_sample_order_payload S E event_name))))"


section \<open>The listing of sets\<close>

text \<open>
  \<open>list(s)\<close> lists every element of the set \<open>s\<close> once; Python fixes no order. The
  environment's \<open>list_of_set\<close> is such a listing.
\<close>

definition lists_sets :: "env \<Rightarrow> bool" where
  "lists_sets E = (\<forall>s. finite s \<longrightarrow> set (list_of_set E s) = s \<and> distinct (list_of_set E s))"


section \<open>A concrete environment\<close>

text \<open>
  One environment in which every definition above can be evaluated: an id encoder that
  joins type name and key, a camel-case transform, a quantizer rounding half up to two
  places, sets listed in ascending order, and a pricing engine that returns the stored
  prices.
\<close>

fun example_capitalize :: "string \<Rightarrow> string" where
  "example_capitalize [] = []"
| "example_capitalize (c # cs) =
     (let n = of_char c :: nat in if 97 \<le> n \<and> n \<le> 122 then char_of (n - 32) # cs else c # cs)"

fun example_camel_case :: "string \<Rightarrow> string" where
  "example_camel_case [] = []"
| "example_camel_case (c # cs) =
     (if c = CHR ''_'' then example_capitalize (example_camel_case cs)
      else c # example_camel_case cs)"

fun example_quantize :: "decimal \<Rightarrow> string \<Rightarrow> decimal" where
  "example_quantize (Decimal c e) cur =
     (if - 2 \<le> e then Decimal (c * 10 ^ nat (e + 2)) (- 2)
      else Decimal ((c + 5 * 10 ^ (nat (- 2 - e) - 1)) div 10 ^ nat (- 2 - e)) (- 2))"

definition example_env :: env where
  "example_env =
     \<lparr>now_isoformat = ''2022-03-01T12:00:00+00:00'',
      version = ''3.1.0'',
      to_global_id = (\<lambda>type_name k. type_name @ '':'' @ str_of_pk k),
      to_camel_case = example_camel_case,
      quantize_price = example_quantize,
      include_taxes_in_prices = True,
      list_of_set = sorted_list_of_set,
      from_payment_app_id =
        (\<lambda>g. if take 4 g = ''app:'' then Some \<lparr>app_pk = 1, name = drop 4 g\<rparr> else None),
      get_weight_g = (\<lambda>v. JInt 500),
      order_line_unit =
        (\<lambda>ord l ls. \<lparr>price_with_discounts = ol_unit_price l,
                      undiscounted_price = ol_undiscounted_unit_price l\<rparr>),
      order_line_total =
        (\<lambda>ord l ls. \<lparr>price_with_discounts = ol_total_price l,
                      undiscounted_price = ol_undiscounted_total_price l\<rparr>),
      order_line_tax_rate = (\<lambda>ord l ls. Decimal 20 (- 2)),
      order_shipping = (\<lambda>ord ls. o_shipping_price ord),
      order_shipping_tax_rate = (\<lambda>ord ls. Decimal 20 (- 2)),
      order_total = (\<lambda>ord ls. o_total ord),
      order_undiscounted_total = (\<lambda>ord ls. o_undiscounted_total ord),
      get_customer_email = (\<lambda>ord. o_cols ord ''user_email''),
      serialize_checkout_lines = (\<lambda>c. []),
      warehouse_for_country = (\<lambda>code. None),
      get_order_country = (\<lambda>ord. ''US'')\<rparr>"


section \<open>The meta envelope: the core entries and the renaming of keys\<close>

text \<open>
  The three entries that \<open>generate_meta\<close> starts from, and a dictionary with every key
  replaced by its image under a key transform.
\<close>

definition core_meta :: "env \<Rightarrow> json \<Rightarrow> (string \<times> json) list" where
  "core_meta E requestor_data =
     [(''issued_at'', JStr (now_isoformat E)),
      (''version'', JStr (version E)),
      (''issuing_principal'', requestor_data)]"

definition rename_keys :: "(string \<Rightarrow> string) \<Rightarrow> (string \<times> json) list \<Rightarrow> (string \<times> json) list" where
  "rename_keys f d = map (\<lambda>(k, v). (f k, v)) d"

section \<open>Concrete payment data\<close>

text \<open>A payment of 10.015 USD through a gateway that is no payment app.\<close>

definition example_payment_data :: payment_data where
  "example_payment_data =
     \<lparr>pd_gateway = ''mirumee.payments.dummy'', pd_amount = Decimal 10015 (- 3), pd_currency = ''USD'',
      pd_other = [(''payment_id'', JInt 7), (''customer_email'', JStr ''customer@example.com'')]\<rparr>"

section \<open>Concrete entities for sample generation\<close>

text \<open>
  A channel, a checkout without user, addresses, shipping method or collection point, a
  customer, and a sample environment whose tables are all empty.
\<close>

definition example_channel :: entity where
  "example_channel =
     \<lparr>model_name = ''Channel'', pk = PkInt 1,
      attr = (\<lambda>n. if n = ''slug'' then JStr ''default-channel''
                  else if n = ''currency_code'' then JStr ''USD'' else JNull)\<rparr>"

definition example_checkout :: checkout where
  "example_checkout =
     \<lparr>c_token = PkStr ''5b2a6b4e-6c5b-4a3c-9f0e-0d9c3b1a2f10'',
      c_currency = ''USD'',
      c_channel = example_channel,
      c_user = None,
      c_billing_address = None,
      c_shipping_address = None,
      c_shipping_method = None,
      c_collection_point = None,
      c_cols = (\<lambda>n. if n = ''discount_amount'' then JDec (Decimal 0 0)
                    else if n = ''email'' then JStr ''customer@example.com'' else JNull)\<rparr>"

definition example_customer :: customer where
  "example_customer =
     \<lparr>cu_pk = PkInt 1, cu_default_shipping_address = None, cu_default_billing_address = None,
      cu_addresses = [], cu_cols = (\<lambda>n. JNull)\<rparr>"

definition empty_sample_env :: "unit sample_env" where
  "empty_sample_env =
     \<lparr>db_orders = [], db_checkouts = [], db_products = [], db_pages = [], db_fulfillments = [],
      random_index = (\<lambda>n. 0),
      anonymize_order = (\<lambda>ord. ord),
      anonymize_checkout = (\<lambda>c. c\<lparr>c_cols := (c_cols c)(''email'' := JStr ''anonymous@example.com'')\<rparr>),
      generate_fake_user = example_customer,
      generate_product_payload = (\<lambda>p. Inr []),
      OrderStatus_UNFULFILLED = JStr ''unfulfilled'',
      OrderStatus_CANCELED = JStr ''canceled'',
      ChargeStatus_FULLY_CHARGED = JStr ''fully-charged'',
      FulfillmentStatus_FULFILLED = JStr ''fulfilled''\<rparr>"

section \<open>Price fields\<close>

text \<open>
  The price fields of the two regimes, after section 4.3 of the specification: with
  taxes a money field is a pair of a net and a gross amount, without taxes a single base
  amount. A field is a price field when its name ends in \<open>_net_amount\<close>,
  \<open>_gross_amount\<close> or \<open>_base_amount\<close>; the non-price fields of a record are the others.
\<close>

definition ends_with :: "string \<Rightarrow> string \<Rightarrow> bool" where
  "ends_with s suffix =
     (length suffix \<le> length s \<and> drop (length s - length suffix) s = suffix)"

definition is_price_field :: "string \<Rightarrow> bool" where
  "is_price_field n =
     (ends_with n ''_net_amount'' \<or> ends_with n ''_gross_amount'' \<or> ends_with n ''_base_amount'')"

definition non_price_fields :: "json \<Rightarrow> string set" where
  "non_price_fields r = Set.filter (\<lambda>n. \<not> is_price_field n) (field_names r)"

text \<open>
  The field names that an order record has in both regimes, whatever the price data.
\<close>

definition order_common_names :: "bool \<Rightarrow> string set" where
  "order_common_names with_meta =
     insert ''id'' (set ORDER_FIELDS)
     \<union> {''channel'', ''shipping_method'', ''shipping_address'', ''billing_address'', ''discounts''}
     \<union> {''token'', ''user_email'', ''created'', ''original'', ''lines'', ''included_taxes_in_prices'',
        ''fulfillments'', ''collection_point'', ''payments''}
     \<union> (if with_meta then {''meta''} else {})"

section \<open>A concrete order\<close>

text \<open>
  An order of one line, two units at 10.00 net and 12.00 gross, without shipping method,
  collection point, addresses, fulfillments, payments or discounts; the line has no
  variant.
\<close>

definition usd :: "int \<Rightarrow> money" where
  "usd cents = \<lparr>amount = Decimal cents (- 2), currency = ''USD''\<rparr>"

definition example_order_line :: order_line where
  "example_order_line =
     \<lparr>ol_pk = PkInt 1,
      ol_currency = ''USD'',
      ol_variant = None,
      ol_allocations = [],
      ol_unit_price = \<lparr>net = usd 1000, gross = usd 1200\<rparr>,
      ol_total_price = \<lparr>net = usd 2000, gross = usd 2400\<rparr>,
      ol_undiscounted_unit_price = \<lparr>net = usd 1000, gross = usd 1200\<rparr>,
      ol_undiscounted_total_price = \<lparr>net = usd 2000, gross = usd 2400\<rparr>,
      ol_unit_price_net_amount = Decimal 1000 (- 2),
      ol_unit_price_gross_amount = Decimal 1200 (- 2),
      ol_cols = (\<lambda>n. if n = ''quantity'' then JInt 2
                     else if n = ''unit_discount_amount'' then JDec (Decimal 0 (- 2))
                     else if n = ''product_name'' then JStr ''Mug'' else JNull)\<rparr>"

definition example_order :: order where
  "example_order =
     \<lparr>o_id = PkStr ''b7a3d1a8-8c53-4a57-9a3c-0c2f5d8e4b11'',
      o_currency = ''USD'',
      o_original_id = PkNone,
      o_channel = example_channel,
      o_shipping_method = None,
      o_collection_point = None,
      o_shipping_address = None,
      o_billing_address = None,
      o_lines = [example_order_line],
      o_fulfillments = [],
      o_payments = [],
      o_discounts = [],
      o_shipping_price = \<lparr>net = usd 0, gross = usd 0\<rparr>,
      o_total = \<lparr>net = usd 2000, gross = usd 2400\<rparr>,
      o_undiscounted_total = \<lparr>net = usd 2000, gross = usd 2400\<rparr>,
      o_cols = (\<lambda>n. if n = ''status'' then JStr ''unfulfilled''
                    else if n = ''user_email'' then JStr ''customer@example.com'' else JNull)\<rparr>"

section \<open>A concrete fulfillment\<close>

text \<open>One fulfillment line of two units of the line of the concrete order.\<close>

definition example_fulfillment :: fulfillment where
  "example_fulfillment =
     \<lparr>f_pk = PkInt 1,
      f_lines = [\<lparr>fl_pk = PkInt 1, fl_quantity = 2, fl_order_line = example_order_line,
                  fl_stock = None, fl_cols = (\<lambda>n. JNull)\<rparr>],
      f_cols = (\<lambda>n. if n = ''status'' then JStr ''fulfilled'' else JNull)\<rparr>"

section \<open>Dictionaries and the serializer: basic facts\<close>

lemma map_of_dict_set: "map_of (dict_set d k v) = (map_of d)(k \<mapsto> v)"
  by (induction d) (auto simp: fun_eq_iff)

lemma dict_get_dict_set: "dict_get (dict_set d k v) k' = (if k' = k then Some v else dict_get d k')"
  by (simp add: dict_get_def map_of_dict_set)

lemma keys_dict_set_list:
  "keys (dict_set d k v) = (if k \<in> set (keys d) then keys d else keys d @ [k])"
  by (induction d) (force simp: keys_def)+

lemma keys_dict_set: "set (keys (dict_set d k v)) = insert k (set (keys d))"
  by (auto simp: keys_dict_set_list)

lemma keys_dict_update: "set (keys (dict_update d e)) = set (keys d) \<union> set (keys e)"
proof (induction d e rule: dict_update.induct)
  case (1 d)
  then show ?case by (simp add: keys_def)
next
  case (2 d k v e)
  then show ?case by (simp add: keys_dict_set) (simp add: keys_def)
qed

lemma distinct_dict_set: "distinct (keys d) \<Longrightarrow> distinct (keys (dict_set d k v))"
  by (simp add: keys_dict_set_list)

lemma distinct_dict_update: "distinct (keys d) \<Longrightarrow> distinct (keys (dict_update d e))"
  by (induction d e rule: dict_update.induct) (auto simp: distinct_dict_set)

lemma dict_get_dict_update:
  "dict_get (dict_update d e) k =
     (case map_of (rev e) k of Some v \<Rightarrow> Some v | None \<Rightarrow> dict_get d k)"
proof (induction d e rule: dict_update.induct)
  case (1 d)
  then show ?case by simp
next
  case (2 d k' v' e)
  then show ?case
    by (simp add: dict_get_dict_set map_add_def split: option.splits)
qed

lemma dict_set_fresh: "k \<notin> set (keys d) \<Longrightarrow> dict_set d k v = d @ [(k, v)]"
  by (induction d) (auto simp: keys_def)

lemma field_serialize_record:
  "field (serialize_record E view oid flds additional extra x) k =
     (case map_of (rev (map (\<lambda>(n, v). (n, extra_value v x)) extra)) k of
        Some v \<Rightarrow> Some v
      | None \<Rightarrow>
          (case map_of (rev (map (\<lambda>(n, acc, sub). (n, related_payload E (acc x) sub)) additional)) k of
             Some v \<Rightarrow> Some v
           | None \<Rightarrow> dict_get (plain_record E (view x) oid flds) k))"
  by (simp add: serialize_record_def dict_get_dict_update split: option.splits)

lemma keys_map_snd: "keys (map (\<lambda>(n, v). (n, g v)) xs) = keys xs"
  by (induction xs) (auto simp: keys_def)

lemma keys_map_snd3: "keys (map (\<lambda>(n, a, b). (n, g a b)) xs) = keys xs"
  by (induction xs) (auto simp: keys_def)

lemma field_names_serialize_record:
  "field_names (serialize_record E view oid flds additional extra x) =
     insert oid (set flds \<union> set (keys additional) \<union> set (keys extra))"
  by (simp add: serialize_record_def plain_record_def keys_dict_update keys_map_snd keys_map_snd3)
     (auto simp: keys_def)

lemma list_of_empty: "lists_sets E \<Longrightarrow> list_of_set E {} = []"
proof -
  assume "lists_sets E"
  then have "set (list_of_set E {}) = {}"
    unfolding lists_sets_def by (metis finite.emptyI)
  then show ?thesis by simp
qed

lemma list_of_single: "lists_sets E \<Longrightarrow> list_of_set E {x} = [x]"
proof -
  assume a: "lists_sets E"
  then have "finite {x} \<longrightarrow> set (list_of_set E {x}) = {x} \<and> distinct (list_of_set E {x})"
    unfolding lists_sets_def by (rule spec)
  then have s: "set (list_of_set E {x}) = {x}" and d: "distinct (list_of_set E {x})"
    by simp_all
  show ?thesis
  proof (cases "list_of_set E {x}")
    case Nil
    with s show ?thesis by simp
  next
    case (Cons y ys)
    with s d have "y = x" "set ys \<subseteq> {x}" "x \<notin> set ys" by auto
    then have "ys = []" by (cases ys) auto
    with Cons \<open>y = x\<close> show ?thesis by simp
  qed
qed


section \<open>Catalogue differences\<close>

text \<open>
  C1. For all catalogue snapshots and every category key, the removed-list is the
  added-list with the snapshots swapped, and the added-list of a snapshot against itself
  is empty. With the previous products \<open>{A, B}\<close> and the current products \<open>{B, C}\<close>
  the added products are \<open>[C]\<close> and the removed products are \<open>[A]\<close>.
\<close>

theorem calculate_removed_is_added_swapped:
  assumes "lists_sets E"
  shows "calculate_removed E previous current key = calculate_added E current previous key
       \<and> calculate_added E c c key = []
       \<and> calculate_added E [''products'' \<mapsto> {''A'', ''B''}] [''products'' \<mapsto> {''B'', ''C''}] ''products'' = [''C'']
       \<and> calculate_removed E [''products'' \<mapsto> {''A'', ''B''}] [''products'' \<mapsto> {''B'', ''C''}] ''products'' = [''A'']"
proof -
  have "{''B'', ''C''} - {''A'', ''B''} = {''C''}" "{''A'', ''B''} - {''B'', ''C''} = {''A''}"
    by auto
  then show ?thesis
    using assms
    by (simp add: calculate_removed_def calculate_added_def catalogue_get_def list_of_empty list_of_single)
qed


text \<open>The same in the concrete environment, whose listing of sets is the sorted one.\<close>

theorem calculate_removed_is_added_swapped_witness:
  "lists_sets example_env
   \<and> calculate_removed example_env [''products'' \<mapsto> {''1''}] Map.empty ''products'' =
       calculate_added example_env Map.empty [''products'' \<mapsto> {''1''}] ''products''
   \<and> calculate_added example_env [''products'' \<mapsto> {''1''}] [''products'' \<mapsto> {''1''}] ''products'' = []
   \<and> calculate_added example_env [''products'' \<mapsto> {''A'', ''B''}] [''products'' \<mapsto> {''B'', ''C''}] ''products'' = [''C'']
   \<and> calculate_removed example_env [''products'' \<mapsto> {''A'', ''B''}] [''products'' \<mapsto> {''B'', ''C''}] ''products'' = [''A'']"
proof -
  have h: "lists_sets example_env"
    by (simp add: lists_sets_def example_env_def)
  show ?thesis
    using h calculate_removed_is_added_swapped [OF h, of "[''products'' \<mapsto> {''1''}]" Map.empty "''products''" "[''products'' \<mapsto> {''1''}]"]
    by simp
qed


section \<open>The sale payload without catalogues\<close>

lemma sale_fields:
  "map (\<lambda>r. field r k) (generate_sale_payload E sale p c rq) =
   [case map_of (rev [(''meta'', (JObj (generate_meta E (generate_requestor E rq) False []))),
              (''categories_added'', (id_list (calculate_added E (case p of None \<Rightarrow> Map.empty | Some c \<Rightarrow> c) (case c of None \<Rightarrow> Map.empty | Some c \<Rightarrow> c) ''categories''))),
              (''categories_removed'', (id_list (calculate_removed E (case p of None \<Rightarrow> Map.empty | Some c \<Rightarrow> c) (case c of None \<Rightarrow> Map.empty | Some c \<Rightarrow> c) ''categories''))),
              (''collections_added'', (id_list (calculate_added E (case p of None \<Rightarrow> Map.empty | Some c \<Rightarrow> c) (case c of None \<Rightarrow> Map.empty | Some c \<Rightarrow> c) ''collections''))),
              (''collections_removed'', (id_list (calculate_removed E (case p of None \<Rightarrow> Map.empty | Some c \<Rightarrow> c) (case c of None \<Rightarrow> Map.empty | Some c \<Rightarrow> c) ''collections''))),
              (''products_added'', (id_list (calculate_added E (case p of None \<Rightarrow> Map.empty | Some c \<Rightarrow> c) (case c of None \<Rightarrow> Map.empty | Some c \<Rightarrow> c) ''products''))),
              (''products_removed'', (id_list (calculate_removed E (case p of None \<Rightarrow> Map.empty | Some c \<Rightarrow> c) (case c of None \<Rightarrow> Map.empty | Some c \<Rightarrow> c) ''products''))),
              (''variants_added'', (id_list (calculate_added E (case p of None \<Rightarrow> Map.empty | Some c \<Rightarrow> c) (case c of None \<Rightarrow> Map.empty | Some c \<Rightarrow> c) ''variants''))),
              (''variants_removed'', (id_list (calculate_removed E (case p of None \<Rightarrow> Map.empty | Some c \<Rightarrow> c) (case c of None \<Rightarrow> Map.empty | Some c \<Rightarrow> c) ''variants'')))]) k of Some v \<Rightarrow> Some v
    | None \<Rightarrow> dict_get (plain_record E sale ''id'' [''id'']) k]"
  by (simp add: generate_sale_payload_def serialize_def field_serialize_record Let_def)


text \<open>
  C7. When \<open>generate_sale_payload\<close> is called with both catalogues absent, each of the
  eight added and removed lists of the sale record is empty. A category key that a
  supplied catalogue does not have counts as the empty set: nothing is added from a
  current catalogue without the key, everything of the current catalogue is added when
  the previous one lacks the key, and no case raises, the functions being total.
\<close>

theorem sale_payload_without_catalogues:
  assumes "lists_sets E"
  shows "map (\<lambda>r. map (field r)
                 [''categories_added'', ''categories_removed'', ''collections_added'',
                  ''collections_removed'', ''products_added'', ''products_removed'',
                  ''variants_added'', ''variants_removed''])
           (generate_sale_payload E sale None None requestor) =
         [[Some (JList []), Some (JList []), Some (JList []), Some (JList []),
           Some (JList []), Some (JList []), Some (JList []), Some (JList [])]]
       \<and> (previous key = None \<longrightarrow>
            calculate_added E previous current key = list_of_set E (catalogue_get current key))
       \<and> (current key = None \<longrightarrow> calculate_added E previous current key = [])
       \<and> (current ''variants'' = None \<longrightarrow>
            map (\<lambda>r. field r ''variants_added'')
              (generate_sale_payload E sale (Some previous) (Some current) requestor) = [Some (JList [])])
       \<and> (previous ''variants'' = None \<longrightarrow>
            map (\<lambda>r. field r ''variants_removed'')
              (generate_sale_payload E sale (Some previous) (Some current) requestor) = [Some (JList [])])"
proof -
  have e: "list_of_set E {} = []" using assms by (rule list_of_empty)
  have 1: "calculate_added E Map.empty Map.empty k = []" for k
    by (simp add: calculate_added_def catalogue_get_def e)
  have 2: "calculate_removed E Map.empty Map.empty k = []" for k
    by (simp add: calculate_removed_def 1)
  have 3: "current k = None \<Longrightarrow> calculate_added E previous current k = []" for k previous current
    by (simp add: calculate_added_def catalogue_get_def e)
  have 4: "previous k = None \<Longrightarrow> calculate_removed E previous current k = []" for k previous current
    by (simp add: calculate_removed_def 3)
  have a: "map (\<lambda>r. map (field r) ks) (generate_sale_payload E sale p c rq) =
           [map (\<lambda>k. hd (map (\<lambda>r. field r k) (generate_sale_payload E sale p c rq))) ks]" for ks p c rq
    by (simp add: generate_sale_payload_def serialize_def Let_def)
  show ?thesis
    apply (intro conjI impI)
    subgoal by (simp only: a sale_fields) (simp add: 1 2 id_list_def)
    subgoal by (simp add: calculate_added_def catalogue_get_def)
    subgoal by (simp add: 3)
    subgoal by (simp add: sale_fields 3 id_list_def)
    subgoal by (simp add: sale_fields 4 id_list_def)
    done
qed


text \<open>The same for a sale in the concrete environment.\<close>

theorem sale_payload_without_catalogues_witness:
  "lists_sets example_env
   \<and> map (\<lambda>r. map (field r)
                 [''categories_added'', ''categories_removed'', ''collections_added'',
                  ''collections_removed'', ''products_added'', ''products_removed'',
                  ''variants_added'', ''variants_removed''])
           (generate_sale_payload example_env \<lparr>model_name = ''Sale'', pk = PkInt 1, attr = (\<lambda>n. JNull)\<rparr> None None None) =
         [[Some (JList []), Some (JList []), Some (JList []), Some (JList []),
           Some (JList []), Some (JList []), Some (JList []), Some (JList [])]]
   \<and> (Map.empty :: catalogue) ''variants'' = None
   \<and> calculate_added example_env Map.empty [''products'' \<mapsto> {''7''}] ''variants'' = []
   \<and> calculate_added example_env Map.empty [''variants'' \<mapsto> {''7''}] ''variants'' =
       list_of_set example_env (catalogue_get [''variants'' \<mapsto> {''7''}] ''variants'')
   \<and> map (\<lambda>r. field r ''variants_added'')
         (generate_sale_payload example_env \<lparr>model_name = ''Sale'', pk = PkInt 1, attr = (\<lambda>n. JNull)\<rparr>
            (Some Map.empty) (Some [''products'' \<mapsto> {''7''}]) None) = [Some (JList [])]
   \<and> map (\<lambda>r. field r ''variants_removed'')
         (generate_sale_payload example_env \<lparr>model_name = ''Sale'', pk = PkInt 1, attr = (\<lambda>n. JNull)\<rparr>
            (Some Map.empty) (Some [''products'' \<mapsto> {''7''}]) None) = [Some (JList [])]"
proof -
  have h: "lists_sets example_env"
    by (simp add: lists_sets_def example_env_def)
  show ?thesis
    using h
      sale_payload_without_catalogues [OF h, of "\<lparr>model_name = ''Sale'', pk = PkInt 1, attr = (\<lambda>n. JNull)\<rparr>" None Map.empty "''variants''" "[''products'' \<mapsto> {''7''}]"]
      sale_payload_without_catalogues [OF h, of "\<lparr>model_name = ''Sale'', pk = PkInt 1, attr = (\<lambda>n. JNull)\<rparr>" None Map.empty "''variants''" "[''variants'' \<mapsto> {''7''}]"]
    by (simp add: catalogue_get_def list_of_empty [OF h])
qed


section \<open>Requestors\<close>

text \<open>
  C4. \<open>generate_requestor\<close> has three results: for no principal, the id and the type
  are both null; for a user, identified or anonymous, the id is the encoded pair of
  \<open>User\<close> and the principal's id and the type is \<open>user\<close>; for any other principal, an
  app, the id is the principal's name and the type is \<open>app\<close>.
\<close>

theorem generate_requestor_three_results:
  "generate_requestor E None = JObj [(''id'', JNull), (''type'', JNull)]
   \<and> generate_requestor E (Some (User uid)) =
       JObj [(''id'', JStr (to_global_id E ''User'' uid)), (''type'', JStr ''user'')]
   \<and> generate_requestor E (Some AnonymousUser) =
       JObj [(''id'', JStr (to_global_id E ''User'' PkNone)), (''type'', JStr ''user'')]
   \<and> generate_requestor E (Some (App n)) = JObj [(''id'', JStr n), (''type'', JStr ''app'')]
   \<and> field (generate_requestor E r) ''type'' =
       Some (case r of None \<Rightarrow> JNull | Some (App n) \<Rightarrow> JStr ''app'' | Some _ \<Rightarrow> JStr ''user'')"
proof (cases r)
  case None
  then show ?thesis by (simp add: dict_get_def)
next
  case (Some p)
  then show ?thesis by (cases p) (simp_all add: dict_get_def)
qed


section \<open>Totals of fulfillment lines\<close>

text \<open>
  The product of a decimal and an integer is exact as long as it has at most 28 digits;
  beyond that it is rounded, as for 99999999999999999999999999.99 times 3.
\<close>

lemma num_digits_le: "0 < k \<Longrightarrow> n < 10 ^ k \<Longrightarrow> num_digits n \<le> k"
proof (induction k arbitrary: n)
  case 0
  then show ?case by simp
next
  case (Suc k)
  show ?case
  proof (cases "n < 10")
    case True
    then show ?thesis by (subst num_digits.simps) simp
  next
    case False
    with Suc.prems have k: "0 < k" by (cases k) auto
    have "n div 10 < 10 ^ k" using Suc.prems(2) by (simp add: less_mult_imp_div_less mult.commute)
    then have "num_digits (n div 10) \<le> k" using Suc.IH k by blast
    with False show ?thesis by (subst num_digits.simps) simp
  qed
qed

lemma fix_context_small: "\<bar>coefficient d\<bar> < 10 ^ 28 \<Longrightarrow> fix_context d = d"
proof -
  assume a: "\<bar>coefficient d\<bar> < 10 ^ 28"
  have "nat \<bar>coefficient d\<bar> < 10 ^ 28"
    using a by (metis nat_less_iff abs_ge_zero of_nat_numeral of_nat_power)
  then have "num_digits (nat \<bar>coefficient d\<bar>) \<le> 28"
    by (intro num_digits_le) simp_all
  then show ?thesis by (simp add: fix_context_def Let_def)
qed

lemma decimal_times_int_exact:
  "\<bar>coefficient d * q\<bar> < 10 ^ 28 \<Longrightarrow>
   decimal_times_int d q = Decimal (coefficient d * q) (exponent d)"
  by (simp add: decimal_times_int_def fix_context_small)


lemma num_digits_gt: "10 ^ k \<le> n \<Longrightarrow> k < num_digits n"
proof (induction k arbitrary: n)
  case 0
  then show ?case by (subst num_digits.simps) simp
next
  case (Suc k)
  then have "10 ^ k \<le> n div 10" by simp
  then have "k < num_digits (n div 10)" by (rule Suc.IH)
  moreover have "\<not> n < 10"
  proof -
    have "(10::nat) \<le> 10 ^ Suc k" by simp
    with Suc.prems show ?thesis by linarith
  qed
  ultimately show ?case by (subst num_digits.simps) simp
qed

lemma num_digits_eq: "10 ^ k \<le> n \<Longrightarrow> n < 10 ^ Suc k \<Longrightarrow> num_digits n = Suc k"
  using num_digits_gt [of k n] num_digits_le [of "Suc k" n] by simp

lemma decimal_times_int_rounds:
  "decimal_times_int (Decimal 9999999999999999999999999999 (- 2)) 3 =
     Decimal 3000000000000000000000000000 (- 1)"
proof -
  have a: "num_digits 29999999999999999999999999997 = Suc 28"
    by (rule num_digits_eq) simp_all
  have b: "num_digits 3000000000000000000000000000 = Suc 27"
    by (rule num_digits_eq) simp_all
  show ?thesis
    by (simp add: decimal_times_int_def fix_context_def round_half_even_def Let_def a b)
qed



text \<open>
  C10. For every fulfillment line, the net and the gross total of its record are the
  quantized undiscounted unit price, net and gross, of the order line, multiplied by the
  quantity of the fulfillment line; no discount enters them. Where the products have at
  most 28 digits, as the amounts and quantities of stored lines do, the total has the
  coefficient of the quantized price times the quantity and its exponent. The totals of
  an order line with taxes are the discounted totals that the pricing engine gives for
  the line.
\<close>

theorem fulfillment_line_totals:
  "map (\<lambda>r. field r ''total_price_net_amount'') (generate_fulfillment_lines_payload E f) =
     map (\<lambda>fl. Some (JDec (decimal_times_int
            (quantize_price E (amount (net (ol_undiscounted_unit_price (fl_order_line fl))))
               (ol_currency (fl_order_line fl)))
            (fl_quantity fl)))) (f_lines f)
   \<and> map (\<lambda>r. field r ''total_price_gross_amount'') (generate_fulfillment_lines_payload E f) =
     map (\<lambda>fl. Some (JDec (decimal_times_int
            (quantize_price E (amount (gross (ol_undiscounted_unit_price (fl_order_line fl))))
               (ol_currency (fl_order_line fl)))
            (fl_quantity fl)))) (f_lines f)
   \<and> ((\<forall>fl\<in>set (f_lines f).
          \<bar>coefficient (quantize_price E (amount (net (ol_undiscounted_unit_price (fl_order_line fl))))
                          (ol_currency (fl_order_line fl))) * fl_quantity fl\<bar> < 10 ^ 28
          \<and> \<bar>coefficient (quantize_price E (amount (gross (ol_undiscounted_unit_price (fl_order_line fl))))
                          (ol_currency (fl_order_line fl))) * fl_quantity fl\<bar> < 10 ^ 28)
        \<longrightarrow>
          map (\<lambda>r. field r ''total_price_net_amount'') (generate_fulfillment_lines_payload E f) =
            map (\<lambda>fl. Some (JDec (Decimal
                   (coefficient (quantize_price E
                      (amount (net (ol_undiscounted_unit_price (fl_order_line fl))))
                      (ol_currency (fl_order_line fl))) * fl_quantity fl)
                   (exponent (quantize_price E
                      (amount (net (ol_undiscounted_unit_price (fl_order_line fl))))
                      (ol_currency (fl_order_line fl))))))) (f_lines f)
          \<and> map (\<lambda>r. field r ''total_price_gross_amount'') (generate_fulfillment_lines_payload E f) =
            map (\<lambda>fl. Some (JDec (Decimal
                   (coefficient (quantize_price E
                      (amount (gross (ol_undiscounted_unit_price (fl_order_line fl))))
                      (ol_currency (fl_order_line fl))) * fl_quantity fl)
                   (exponent (quantize_price E
                      (amount (gross (ol_undiscounted_unit_price (fl_order_line fl))))
                      (ol_currency (fl_order_line fl))))))) (f_lines f))
   \<and> map (\<lambda>r. field r ''total_price_net_amount'') (generate_order_lines_payload_with_taxes E ord lines) =
     map (\<lambda>l. Some (JDec (amount (net (price_with_discounts (order_line_total E ord l lines)))))) lines
   \<and> map (\<lambda>r. field r ''total_price_gross_amount'') (generate_order_lines_payload_with_taxes E ord lines) =
     map (\<lambda>l. Some (JDec (amount (gross (price_with_discounts (order_line_total E ord l lines)))))) lines"
proof -
  have 1: "map (\<lambda>r. field r ''total_price_net_amount'') (generate_order_lines_payload_with_taxes E ord lines) =
     map (\<lambda>l. Some (JDec (amount (net (price_with_discounts (order_line_total E ord l lines)))))) lines"
    by (simp add: generate_order_lines_payload_with_taxes_def ORDER_LINES_EXTRA_DICT_DATA_def
          serialize_def field_serialize_record Let_def comp_def)
  have 2: "map (\<lambda>r. field r ''total_price_gross_amount'') (generate_order_lines_payload_with_taxes E ord lines) =
     map (\<lambda>l. Some (JDec (amount (gross (price_with_discounts (order_line_total E ord l lines)))))) lines"
    by (simp add: generate_order_lines_payload_with_taxes_def ORDER_LINES_EXTRA_DICT_DATA_def
          serialize_def field_serialize_record Let_def comp_def)
  have 3: "map (\<lambda>r. field r ''total_price_net_amount'') (generate_fulfillment_lines_payload E f) =
     map (\<lambda>fl. Some (JDec (decimal_times_int
            (quantize_price E (amount (net (ol_undiscounted_unit_price (fl_order_line fl))))
               (ol_currency (fl_order_line fl)))
            (fl_quantity fl)))) (f_lines f)"
    by (simp add: generate_fulfillment_lines_payload_def serialize_def field_serialize_record comp_def)
  have 4: "map (\<lambda>r. field r ''total_price_gross_amount'') (generate_fulfillment_lines_payload E f) =
     map (\<lambda>fl. Some (JDec (decimal_times_int
            (quantize_price E (amount (gross (ol_undiscounted_unit_price (fl_order_line fl))))
               (ol_currency (fl_order_line fl)))
            (fl_quantity fl)))) (f_lines f)"
    by (simp add: generate_fulfillment_lines_payload_def serialize_def field_serialize_record comp_def)
  have 5: "map (\<lambda>r. field r ''total_price_net_amount'') (generate_fulfillment_lines_payload E f) =
            map (\<lambda>fl. Some (JDec (Decimal
                   (coefficient (quantize_price E
                      (amount (net (ol_undiscounted_unit_price (fl_order_line fl))))
                      (ol_currency (fl_order_line fl))) * fl_quantity fl)
                   (exponent (quantize_price E
                      (amount (net (ol_undiscounted_unit_price (fl_order_line fl))))
                      (ol_currency (fl_order_line fl))))))) (f_lines f)"
    if "\<forall>fl\<in>set (f_lines f).
          \<bar>coefficient (quantize_price E (amount (net (ol_undiscounted_unit_price (fl_order_line fl))))
                          (ol_currency (fl_order_line fl))) * fl_quantity fl\<bar> < 10 ^ 28
          \<and> \<bar>coefficient (quantize_price E (amount (gross (ol_undiscounted_unit_price (fl_order_line fl))))
                          (ol_currency (fl_order_line fl))) * fl_quantity fl\<bar> < 10 ^ 28"
    unfolding 3 using that by (intro map_cong refl) (simp add: decimal_times_int_exact)
  have 6: "map (\<lambda>r. field r ''total_price_gross_amount'') (generate_fulfillment_lines_payload E f) =
            map (\<lambda>fl. Some (JDec (Decimal
                   (coefficient (quantize_price E
                      (amount (gross (ol_undiscounted_unit_price (fl_order_line fl))))
                      (ol_currency (fl_order_line fl))) * fl_quantity fl)
                   (exponent (quantize_price E
                      (amount (gross (ol_undiscounted_unit_price (fl_order_line fl))))
                      (ol_currency (fl_order_line fl))))))) (f_lines f)"
    if "\<forall>fl\<in>set (f_lines f).
          \<bar>coefficient (quantize_price E (amount (net (ol_undiscounted_unit_price (fl_order_line fl))))
                          (ol_currency (fl_order_line fl))) * fl_quantity fl\<bar> < 10 ^ 28
          \<and> \<bar>coefficient (quantize_price E (amount (gross (ol_undiscounted_unit_price (fl_order_line fl))))
                          (ol_currency (fl_order_line fl))) * fl_quantity fl\<bar> < 10 ^ 28"
    unfolding 4 using that by (intro map_cong refl) (simp add: decimal_times_int_exact)
  show ?thesis using 1 2 3 4 5 6 by blast
qed


text \<open>
  The concrete fulfillment: two units at 10.00 net and 12.00 gross give the totals 20.00
  and 24.00.
\<close>

theorem fulfillment_line_totals_witness:
  "\<bar>coefficient (quantize_price example_env (Decimal 1000 (- 2)) ''USD'') * 2\<bar> < 10 ^ 28
   \<and> \<bar>coefficient (quantize_price example_env (Decimal 1200 (- 2)) ''USD'') * 2\<bar> < 10 ^ 28
   \<and> map (\<lambda>r. field r ''total_price_net_amount'')
         (generate_fulfillment_lines_payload example_env example_fulfillment) =
       [Some (JDec (Decimal 2000 (- 2)))]
   \<and> map (\<lambda>r. field r ''total_price_gross_amount'')
         (generate_fulfillment_lines_payload example_env example_fulfillment) =
       [Some (JDec (Decimal 2400 (- 2)))]"
proof -
  have q: "quantize_price example_env (Decimal 1000 (- 2)) ''USD'' = Decimal 1000 (- 2)"
          "quantize_price example_env (Decimal 1200 (- 2)) ''USD'' = Decimal 1200 (- 2)"
    by (simp_all add: example_env_def)
  have l: "f_lines example_fulfillment =
             [\<lparr>fl_pk = PkInt 1, fl_quantity = 2, fl_order_line = example_order_line,
               fl_stock = None, fl_cols = (\<lambda>n. JNull)\<rparr>]"
    by (simp add: example_fulfillment_def)
  have p: "amount (net (ol_undiscounted_unit_price example_order_line)) = Decimal 1000 (- 2)"
          "amount (gross (ol_undiscounted_unit_price example_order_line)) = Decimal 1200 (- 2)"
          "ol_currency example_order_line = ''USD''"
    by (simp_all add: example_order_line_def usd_def)
  have h: "\<forall>fl\<in>set (f_lines example_fulfillment).
      \<bar>coefficient (quantize_price example_env
                      (amount (net (ol_undiscounted_unit_price (fl_order_line fl))))
                      (ol_currency (fl_order_line fl))) * fl_quantity fl\<bar> < 10 ^ 28
      \<and> \<bar>coefficient (quantize_price example_env
                      (amount (gross (ol_undiscounted_unit_price (fl_order_line fl))))
                      (ol_currency (fl_order_line fl))) * fl_quantity fl\<bar> < 10 ^ 28"
    by (simp add: l p q)
  show ?thesis
    using h fulfillment_line_totals [of example_env example_fulfillment example_order "[]"]
    by (simp add: l p q decimal_times_int_exact)
qed

section \<open>The meta envelope\<close>

lemma map_of_rev_distinct: "distinct (map fst e) \<Longrightarrow> map_of (rev e) = map_of e"
  by (rule map_of_inject_set[THEN iffD2]) (simp_all add: rev_map[symmetric])

lemma camel_case_items_inj:
  "distinct (keys (seen @ items)) \<Longrightarrow> inj_on (to_camel_case E) (set (keys (seen @ items))) \<Longrightarrow>
   camel_case_items E (rename_keys (to_camel_case E) seen) items =
     rename_keys (to_camel_case E) (seen @ items)"
proof (induction items arbitrary: seen)
  case Nil
  then show ?case by simp
next
  case (Cons kv items)
  obtain k v where kv: "kv = (k, v)" by (cases kv)
  have fresh: "to_camel_case E k \<notin> set (keys (rename_keys (to_camel_case E) seen))"
  proof
    assume "to_camel_case E k \<in> set (keys (rename_keys (to_camel_case E) seen))"
    then have "\<exists>k'. k' \<in> set (keys seen) \<and> to_camel_case E k' = to_camel_case E k"
      by (force simp: keys_def rename_keys_def)
    then obtain k' where k': "k' \<in> set (keys seen)" "to_camel_case E k' = to_camel_case E k"
      by blast
    have kin: "k \<in> set (keys (seen @ kv # items))"
      by (simp add: keys_def kv)
    have k'in: "k' \<in> set (keys (seen @ kv # items))"
      using k'(1) by (simp add: keys_def)
    have "k' = k"
      using Cons.prems(2) k'(2) k'in kin by (rule inj_onD)
    then have "k \<in> set (keys seen)" using k'(1) by simp
    moreover have "k \<notin> set (keys seen)"
      using Cons.prems(1) by (simp add: keys_def kv)
    ultimately show False by simp
  qed
  have "camel_case_items E (rename_keys (to_camel_case E) seen) (kv # items) =
        camel_case_items E (rename_keys (to_camel_case E) (seen @ [(k, v)])) items"
    using fresh by (simp add: kv dict_set_fresh) (simp add: rename_keys_def)
  also have "\<dots> = rename_keys (to_camel_case E) ((seen @ [(k, v)]) @ items)"
    using Cons.prems by (intro Cons.IH) (simp_all add: kv)
  finally show ?case by (simp add: kv)
qed


text \<open>
  C3, as the code has it. Without camel case, an entry of the envelope is the extension's
  value where the extensions have the key, and the core value (timestamp, version,
  requestor data) otherwise; the keys are the three core keys and the extension keys.
  With camel case the same entries are stored, in order, under their camel-case keys,
  and where the transform maps no two keys to one, the envelope is the merged one with
  every key transformed.
\<close>

theorem generate_meta_merge:
  assumes "distinct (keys kwargs)"
  shows "dict_get (generate_meta E requestor_data False kwargs) k =
           (case dict_get kwargs k of
              Some v \<Rightarrow> Some v
            | None \<Rightarrow> dict_get (core_meta E requestor_data) k)
       \<and> set (keys (generate_meta E requestor_data False kwargs)) =
           {''issued_at'', ''version'', ''issuing_principal''} \<union> set (keys kwargs)
       \<and> generate_meta E requestor_data True kwargs =
           camel_case_items E [] (generate_meta E requestor_data False kwargs)
       \<and> (inj_on (to_camel_case E) (set (keys (generate_meta E requestor_data False kwargs))) \<longrightarrow>
            generate_meta E requestor_data True kwargs =
              rename_keys (to_camel_case E) (generate_meta E requestor_data False kwargs))"
proof -
  have m: "map_of (rev kwargs) = map_of kwargs"
    using assms by (simp add: map_of_rev_distinct keys_def)
  have "distinct (keys (core_meta E requestor_data))"
    by (simp add: core_meta_def keys_def)
  then have d: "distinct (keys (generate_meta E requestor_data False kwargs))"
    unfolding generate_meta_def core_meta_def by (simp add: distinct_dict_update)
  have c: "inj_on (to_camel_case E) (set (keys (generate_meta E requestor_data False kwargs))) \<Longrightarrow>
           camel_case_items E [] (generate_meta E requestor_data False kwargs) =
             rename_keys (to_camel_case E) (generate_meta E requestor_data False kwargs)"
    using camel_case_items_inj [of "[]" "generate_meta E requestor_data False kwargs" E] d
    by (simp add: rename_keys_def)
  have G: "generate_meta E requestor_data False kwargs = dict_update (core_meta E requestor_data) kwargs"
    by (simp add: generate_meta_def core_meta_def)
  have A: "dict_get (generate_meta E requestor_data False kwargs) k =
           (case map_of (rev kwargs) k of
              Some v \<Rightarrow> Some v
            | None \<Rightarrow> dict_get (core_meta E requestor_data) k)"
    by (simp only: G dict_get_dict_update)
  have B: "map_of (rev kwargs) k = dict_get kwargs k"
    by (simp add: dict_get_def m)
  show ?thesis
    apply (intro conjI impI)
    subgoal using A B by (simp only:)
    subgoal by (simp add: generate_meta_def keys_dict_update) (auto simp: keys_def)
    subgoal by (simp add: generate_meta_def)
    subgoal using c by (simp add: generate_meta_def)
    done
qed


text \<open>
  C3 as stated fails: an extension named \<open>version\<close> replaces the build's version in
  the envelope.
\<close>

theorem generate_meta_override_counterexample:
  "dict_get (generate_meta example_env (JObj [(''id'', JNull), (''type'', JNull)]) False
              [(''version'', JStr ''0.0.0'')]) ''version'' = Some (JStr ''0.0.0'')
   \<and> JStr ''0.0.0'' \<noteq> JStr (version example_env)"
  by (simp add: generate_meta_def dict_get_def example_env_def)


text \<open>The merge in the concrete environment, with a clash on \<open>version\<close>.\<close>

theorem generate_meta_merge_witness:
  "distinct (keys [(''version'', JStr ''0.0.0''), (''shop'', JStr ''main'')])
   \<and> inj_on (to_camel_case example_env)
        (set (keys (generate_meta example_env JNull False [(''version'', JStr ''0.0.0''), (''shop'', JStr ''main'')])))
   \<and> dict_get (generate_meta example_env JNull False [(''version'', JStr ''0.0.0''), (''shop'', JStr ''main'')]) ''version'' = Some (JStr ''0.0.0'')
   \<and> dict_get (generate_meta example_env JNull False [(''version'', JStr ''0.0.0''), (''shop'', JStr ''main'')]) ''issued_at'' = Some (JStr (now_isoformat example_env))
   \<and> generate_meta example_env JNull True [(''version'', JStr ''0.0.0''), (''shop'', JStr ''main'')] =
       [(''issuedAt'', JStr (now_isoformat example_env)), (''version'', JStr ''0.0.0''),
        (''issuingPrincipal'', JNull), (''shop'', JStr ''main'')]"
proof -
  let ?kw = "[(''version'', JStr ''0.0.0''), (''shop'', JStr ''main'')]"
  have h: "distinct (keys ?kw)"
    by (simp add: keys_def)
  have c: "example_camel_case ''issued_at'' = ''issuedAt''"
          "example_camel_case ''issuing_principal'' = ''issuingPrincipal''"
          "example_camel_case ''version'' = ''version''"
          "example_camel_case ''shop'' = ''shop''"
    by code_simp+
  have t: "to_camel_case example_env = example_camel_case"
    by (simp add: example_env_def)
  have g: "generate_meta example_env JNull False ?kw =
           [(''issued_at'', JStr (now_isoformat example_env)), (''version'', JStr ''0.0.0''),
            (''issuing_principal'', JNull), (''shop'', JStr ''main'')]"
    by (simp add: generate_meta_def)
  have i: "inj_on (to_camel_case example_env) (set (keys (generate_meta example_env JNull False ?kw)))"
    unfolding g t by (simp add: keys_def c del: example_camel_case.simps)
  have 1: "dict_get (generate_meta example_env JNull False ?kw) ''version'' = Some (JStr ''0.0.0'')"
    using generate_meta_merge [OF h, of example_env JNull "''version''"]
    by (simp add: dict_get_def)
  have 2: "dict_get (generate_meta example_env JNull False ?kw) ''issued_at'' =
           Some (JStr (now_isoformat example_env))"
    using generate_meta_merge [OF h, of example_env JNull "''issued_at''"]
    by (simp add: dict_get_def core_meta_def)
  have "generate_meta example_env JNull True ?kw =
          rename_keys (to_camel_case example_env) (generate_meta example_env JNull False ?kw)"
    using generate_meta_merge [OF h, of example_env JNull "''version''"] i by blast
  then have 3: "generate_meta example_env JNull True ?kw =
       [(''issuedAt'', JStr (now_isoformat example_env)), (''version'', JStr ''0.0.0''),
        (''issuingPrincipal'', JNull), (''shop'', JStr ''main'')]"
    unfolding g t by (simp add: rename_keys_def c del: example_camel_case.simps)
  show ?thesis
    using h i 1 2 3 by blast
qed

section \<open>The payment payload\<close>

text \<open>
  C9. In \<open>generate_payment_payload\<close> the meta envelope and the \<open>payment_method\<close> field
  are in the output exactly when the gateway id of the payment parses as a payment-app
  id. For a gateway id that does not parse, the payload has the fields of the payment
  data and no others, with the amount quantized and every other field as it was. (The
  dataclass has no field named \<open>payment_method\<close> or \<open>meta\<close>.)
\<close>

theorem payment_payload_meta_iff_app:
  assumes "''payment_method'' \<notin> set (keys (asdict payment_data))"
      and "''meta'' \<notin> set (keys (asdict payment_data))"
  shows "(''meta'' \<in> field_names (generate_payment_payload E payment_data requestor)
            \<longleftrightarrow> from_payment_app_id E (pd_gateway payment_data) \<noteq> None)
       \<and> (''payment_method'' \<in> field_names (generate_payment_payload E payment_data requestor)
            \<longleftrightarrow> from_payment_app_id E (pd_gateway payment_data) \<noteq> None)
       \<and> (from_payment_app_id E (pd_gateway payment_data) = None \<longrightarrow>
            field_names (generate_payment_payload E payment_data requestor) =
              set (keys (asdict payment_data))
            \<and> field (generate_payment_payload E payment_data requestor) k =
                (if k = ''amount''
                 then Some (JDec (quantize_price E (pd_amount payment_data) (pd_currency payment_data)))
                 else dict_get (asdict payment_data) k))
       \<and> (\<forall>app. from_payment_app_id E (pd_gateway payment_data) = Some app \<longrightarrow>
            field (generate_payment_payload E payment_data requestor) ''payment_method'' =
              Some (JStr (name app))
            \<and> field (generate_payment_payload E payment_data requestor) ''meta'' =
              Some (JObj (generate_meta E (generate_requestor E requestor) False [])))"
proof -
  have amt: "''amount'' \<in> set (keys (asdict payment_data))"
    by (simp add: asdict_def keys_def)
  show ?thesis
  proof (cases "from_payment_app_id E (pd_gateway payment_data)")
    case None
    then show ?thesis
      using assms amt
      by (auto simp: generate_payment_payload_def keys_dict_set dict_get_dict_set)
  next
    case (Some app)
    then show ?thesis
      by (simp add: generate_payment_payload_def keys_dict_set dict_get_dict_set)
  qed
qed


text \<open>
  The concrete payment: its gateway does not parse, so there is neither field and the
  amount becomes 10.02; with the gateway \<open>app:pay\<close> the payment method is \<open>pay\<close>.
\<close>

theorem payment_payload_meta_iff_app_witness:
  "''payment_method'' \<notin> set (keys (asdict example_payment_data))
   \<and> ''meta'' \<notin> set (keys (asdict example_payment_data))
   \<and> from_payment_app_id example_env (pd_gateway example_payment_data) = None
   \<and> ''meta'' \<notin> field_names (generate_payment_payload example_env example_payment_data None)
   \<and> ''payment_method'' \<notin> field_names (generate_payment_payload example_env example_payment_data None)
   \<and> field (generate_payment_payload example_env example_payment_data None) ''amount'' =
       Some (JDec (Decimal 1002 (- 2)))
   \<and> from_payment_app_id example_env (pd_gateway (example_payment_data\<lparr>pd_gateway := ''app:pay''\<rparr>)) =
       Some \<lparr>app_pk = 1, name = ''pay''\<rparr>
   \<and> field (generate_payment_payload example_env (example_payment_data\<lparr>pd_gateway := ''app:pay''\<rparr>) None)
         ''payment_method'' = Some (JStr ''pay'')"
proof -
  have a: "''payment_method'' \<notin> set (keys (asdict example_payment_data))"
          "''meta'' \<notin> set (keys (asdict example_payment_data))"
    by (simp_all add: asdict_def keys_def example_payment_data_def)
  have b: "''payment_method'' \<notin> set (keys (asdict (example_payment_data\<lparr>pd_gateway := ''app:pay''\<rparr>)))"
          "''meta'' \<notin> set (keys (asdict (example_payment_data\<lparr>pd_gateway := ''app:pay''\<rparr>)))"
    by (simp_all add: asdict_def keys_def example_payment_data_def)
  have n: "from_payment_app_id example_env (pd_gateway example_payment_data) = None"
    by (simp add: example_env_def example_payment_data_def)
  have s: "from_payment_app_id example_env (pd_gateway (example_payment_data\<lparr>pd_gateway := ''app:pay''\<rparr>)) =
       Some \<lparr>app_pk = 1, name = ''pay''\<rparr>"
    by (simp add: example_env_def example_payment_data_def)
  have q: "quantize_price example_env (pd_amount example_payment_data) (pd_currency example_payment_data) =
           Decimal 1002 (- 2)"
    by (simp add: example_env_def example_payment_data_def)
  show ?thesis
    using a n s q
      payment_payload_meta_iff_app [OF a, of example_env None "''amount''"]
      payment_payload_meta_iff_app [OF b, of example_env None "''amount''"]
    by simp
qed

section \<open>Sample payloads: empty tables and the checkout token\<close>

text \<open>
  What \<open>generate_sample_payload\<close> does when a table is empty, branch by branch, and for
  an event name it does not know.
\<close>

lemma uuid_str_1: "uuid_str 1 = ''00000000-0000-0000-0000-000000000001''"
  by code_simp

lemma get_sample_object_Nil: "get_sample_object S [] = None"
  by (simp add: get_sample_object_def)

lemma get_sample_object_nonempty: "qs \<noteq> [] \<Longrightarrow> \<exists>x. get_sample_object S qs = Some x"
  by (simp add: get_sample_object_def)

lemma sample_checkout_unbound:
  "db_checkouts S = [] \<Longrightarrow> event_name \<in> {CHECKOUT_CREATED, CHECKOUT_UPDATED} \<Longrightarrow>
   generate_sample_payload S E event_name = Inl UnboundLocalError"
  by (auto simp: generate_sample_payload_def get_sample_object_Nil)

lemma sample_page_unbound:
  "db_pages S = [] \<Longrightarrow> event_name \<in> {PAGE_CREATED, PAGE_DELETED, PAGE_UPDATED} \<Longrightarrow>
   generate_sample_payload S E event_name = Inl UnboundLocalError"
  by (auto simp: generate_sample_payload_def get_sample_object_Nil)

lemma sample_fulfillment_attribute_error:
  "db_fulfillments S = [] \<Longrightarrow> generate_sample_payload S E FULFILLMENT_CREATED = Inl AttributeError"
  by (simp add: generate_sample_payload_def get_sample_object_Nil)

lemma sample_unknown_event: "generate_sample_payload S E (OTHER n) = Inr None"
  by (simp add: generate_sample_payload_def generate_sample_order_payload_def)

lemma sample_product_none:
  "db_products S = [] \<Longrightarrow> generate_sample_payload S E PRODUCT_CREATED = Inr None"
  by (simp add: generate_sample_payload_def get_sample_object_Nil)

lemma sample_order_none:
  "db_orders S = [] \<Longrightarrow>
   event_name \<in> {ORDER_CREATED, ORDER_FULLY_PAID, ORDER_FULFILLED, ORDER_CANCELLED, ORDER_UPDATED} \<Longrightarrow>
   generate_sample_payload S E event_name = Inr None"
  by (auto simp: generate_sample_payload_def generate_sample_order_payload_def get_sample_object_Nil)


text \<open>
  C5 says that \<open>generate_sample_payload\<close> returns a document or \<open>None\<close> for every event
  name and never raises. With empty tables that holds for unknown names, for the order
  events and for \<open>PRODUCT_CREATED\<close>; for the checkout and page events the variable
  \<open>payload\<close> is read unbound, and for \<open>FULFILLMENT_CREATED\<close> the attribute \<open>order\<close>
  of \<open>None\<close> is read.
\<close>

theorem sample_payload_raises_without_entities:
  "generate_sample_payload empty_sample_env example_env CHECKOUT_CREATED = Inl UnboundLocalError
   \<and> generate_sample_payload empty_sample_env example_env CHECKOUT_UPDATED = Inl UnboundLocalError
   \<and> generate_sample_payload empty_sample_env example_env PAGE_CREATED = Inl UnboundLocalError
   \<and> generate_sample_payload empty_sample_env example_env FULFILLMENT_CREATED = Inl AttributeError
   \<and> generate_sample_payload empty_sample_env example_env PRODUCT_CREATED = Inr None
   \<and> generate_sample_payload empty_sample_env example_env ORDER_CREATED = Inr None
   \<and> generate_sample_payload empty_sample_env example_env (OTHER ''no_such_event'') = Inr None"
proof -
  have e: "db_checkouts empty_sample_env = []" "db_pages empty_sample_env = []"
    "db_fulfillments empty_sample_env = []" "db_products empty_sample_env = []"
    "db_orders empty_sample_env = []"
    by (simp_all add: empty_sample_env_def)
  show ?thesis
    by (simp add: sample_checkout_unbound sample_page_unbound sample_fulfillment_attribute_error
        sample_product_none sample_order_none sample_unknown_event e)
qed


text \<open>
  C8. In sample generation for the checkout events, the token of the checkout record is
  replaced by the UUID of the integer 1, whatever the checkout, the environment and the
  time: \<open>_remove_token_from_checkout\<close> stores it in the first record of the checkout
  payload.
\<close>

theorem sample_checkout_token_is_sentinel:
  assumes "db_checkouts S \<noteq> []"
  shows "(\<exists>r. generate_sample_payload S E CHECKOUT_CREATED = Inr (Some (JList [r]))
            \<and> field r ''token'' = Some (JStr ''00000000-0000-0000-0000-000000000001''))
       \<and> (\<exists>r. generate_sample_payload S E CHECKOUT_UPDATED = Inr (Some (JList [r]))
            \<and> field r ''token'' = Some (JStr ''00000000-0000-0000-0000-000000000001''))
       \<and> (\<exists>r. remove_token_from_checkout (JList (generate_checkout_payload E checkout requestor)) =
                  Inr (JList [r])
            \<and> field r ''token'' = Some (JStr ''00000000-0000-0000-0000-000000000001''))"
proof -
  have rm: "\<exists>r. remove_token_from_checkout (JList (generate_checkout_payload E c rq)) = Inr (JList [r])
            \<and> field r ''token'' = Some (JStr ''00000000-0000-0000-0000-000000000001'')" for c rq
  proof -
    obtain d where d: "generate_checkout_payload E c rq = [JObj d]"
      by (simp add: generate_checkout_payload_def serialize_def serialize_record_def Let_def)
    show ?thesis
      by (simp add: d dict_get_dict_set uuid_str_1 del: One_nat_def)
  qed
  obtain c where c: "get_sample_object S (db_checkouts S) = Some c"
    using get_sample_object_nonempty [OF assms] by blast
  obtain r where r: "remove_token_from_checkout
        (JList (generate_checkout_payload E (anonymize_checkout S c) None)) = Inr (JList [r])"
      "field r ''token'' = Some (JStr ''00000000-0000-0000-0000-000000000001'')"
    using rm by blast
  have "generate_sample_payload S E CHECKOUT_CREATED = Inr (Some (JList [r]))"
       "generate_sample_payload S E CHECKOUT_UPDATED = Inr (Some (JList [r]))"
    by (simp_all add: generate_sample_payload_def c r Let_def)
  with r(2) rm show ?thesis by blast
qed


text \<open>The same with the concrete checkout as the only row of the table.\<close>

theorem sample_checkout_token_is_sentinel_witness:
  "db_checkouts (empty_sample_env\<lparr>db_checkouts := [example_checkout]\<rparr>) \<noteq> []
   \<and> (\<exists>r. generate_sample_payload (empty_sample_env\<lparr>db_checkouts := [example_checkout]\<rparr>)
             example_env CHECKOUT_CREATED = Inr (Some (JList [r]))
          \<and> field r ''token'' = Some (JStr ''00000000-0000-0000-0000-000000000001''))"
proof -
  have h: "db_checkouts (empty_sample_env\<lparr>db_checkouts := [example_checkout]\<rparr>) \<noteq> []"
    by simp
  show ?thesis
    using h sample_checkout_token_is_sentinel [OF h, of example_env] by blast
qed

section \<open>Field names of the order payloads\<close>

lemma keys_Cons: "keys ((k, v) # d) = k # keys d"
  by (simp add: keys_def)

lemma keys_Nil: "keys [] = []"
  by (simp add: keys_def)

lemma keys_append: "keys (d @ e) = keys d @ keys e"
  by (simp add: keys_def)

lemma keys_map_Const: "keys (map (\<lambda>(k, v). (k, Const v)) d) = keys d"
  by (induction d) (auto simp: keys_def)

lemma line_field_names_with_taxes:
  "map field_names (generate_order_lines_payload_with_taxes E ord lines) =
     map (\<lambda>l. insert ''id'' (set ORDER_LINE_FIELDS \<union> set (keys (ORDER_LINES_EXTRA_DICT_DATA E)))
             \<union> {''unit_price_net_amount'', ''unit_price_gross_amount'', ''total_price_net_amount'',
                ''total_price_gross_amount'', ''undiscounted_unit_price_net_amount'',
                ''undiscounted_unit_price_gross_amount'', ''undiscounted_total_price_net_amount'',
                ''undiscounted_total_price_gross_amount''}
             \<union> {''tax_rate''}) lines"
  by (simp add: generate_order_lines_payload_with_taxes_def serialize_def field_names_serialize_record
        keys_dict_update keys_dict_set keys_Cons keys_Nil comp_def Let_def) auto


lemma line_field_names_without_taxes:
  "map field_names (generate_order_lines_payload_without_taxes E ord lines b) =
     map (\<lambda>l. insert ''id'' (set ORDER_LINE_FIELDS \<union> set (keys (ORDER_LINES_EXTRA_DICT_DATA E)))
             \<union> {''unit_price_base_amount'', ''total_price_base_amount'',
                ''undiscounted_unit_price_base_amount'', ''undiscounted_total_price_base_amount''}) lines"
  by (simp add: generate_order_lines_payload_without_taxes_def serialize_def field_names_serialize_record
        keys_dict_update keys_dict_set keys_Cons keys_Nil comp_def Let_def) auto

lemma order_field_names:
  "map field_names
     (private_generate_order_payload E ord rq with_meta prices lines_payload incl) =
   [order_common_names with_meta \<union> set (keys prices)]"
  by (simp add: private_generate_order_payload_def serialize_def field_names_serialize_record
        keys_dict_update keys_dict_set keys_Cons keys_Nil keys_append keys_map_Const Let_def
        order_common_names_def) auto

lemma prices_keys_with_taxes:
  "set (keys (generate_order_prices_data_with_taxes E ord lines)) =
     {''shipping_price_net_amount'', ''shipping_price_gross_amount'', ''total_net_amount'',
      ''total_gross_amount'', ''undiscounted_total_net_amount'', ''undiscounted_total_gross_amount''}
     \<union> {''shipping_tax_rate''}"
  by (simp add: generate_order_prices_data_with_taxes_def keys_dict_update keys_Cons keys_Nil Let_def) auto

lemma prices_keys_without_taxes:
  "set (keys (generate_order_prices_data_without_taxes E ord b)) =
     {''shipping_price_base_amount'', ''total_base_amount'', ''undiscounted_total_base_amount''}"
  by (simp add: generate_order_prices_data_without_taxes_def keys_dict_update keys_Cons keys_Nil Let_def)

lemma price_names:
  "list_all is_price_field
     [''unit_price_net_amount'', ''unit_price_gross_amount'', ''total_price_net_amount'',
      ''total_price_gross_amount'', ''undiscounted_unit_price_net_amount'',
      ''undiscounted_unit_price_gross_amount'', ''undiscounted_total_price_net_amount'',
      ''undiscounted_total_price_gross_amount'',
      ''unit_price_base_amount'', ''total_price_base_amount'',
      ''undiscounted_unit_price_base_amount'', ''undiscounted_total_price_base_amount'',
      ''shipping_price_net_amount'', ''shipping_price_gross_amount'', ''total_net_amount'',
      ''total_gross_amount'', ''undiscounted_total_net_amount'', ''undiscounted_total_gross_amount'',
      ''shipping_price_base_amount'', ''total_base_amount'', ''undiscounted_total_base_amount'']"
  by code_simp

lemma tax_rate_names: "\<not> is_price_field ''tax_rate''" "\<not> is_price_field ''shipping_tax_rate''"
  by code_simp+

lemma filter_drop_prices:
  "\<forall>n\<in>P. is_price_field n \<Longrightarrow>
   Set.filter (\<lambda>n. \<not> is_price_field n) (C \<union> P) = Set.filter (\<lambda>n. \<not> is_price_field n) C"
  by auto

lemma filter_drop_prices_keep:
  "\<forall>n\<in>P. is_price_field n \<Longrightarrow> \<not> is_price_field t \<Longrightarrow>
   Set.filter (\<lambda>n. \<not> is_price_field n) (C \<union> (P \<union> {t})) =
     insert t (Set.filter (\<lambda>n. \<not> is_price_field n) C)"
  by auto

lemma filter_drop_prices_keep':
  "\<forall>n\<in>P. is_price_field n \<Longrightarrow> \<not> is_price_field t \<Longrightarrow>
   Set.filter (\<lambda>n. \<not> is_price_field n) (C \<union> P \<union> {t}) =
     insert t (Set.filter (\<lambda>n. \<not> is_price_field n) C)"
  by auto

lemma filter_keep:
  "\<not> is_price_field t \<Longrightarrow>
   Set.filter (\<lambda>n. \<not> is_price_field n) (C \<union> {t}) = insert t (Set.filter (\<lambda>n. \<not> is_price_field n) C)"
  by auto


text \<open>
  C2, as the code has it. For the same order the two payloads have the same non-price
  field names up to the tax rates: the order record with taxes has \<open>shipping_tax_rate\<close>
  in addition, and every order line with taxes has \<open>tax_rate\<close> in addition. The lines of
  either order record are the lines payload of its regime.
\<close>

theorem order_payloads_differ_in_prices_and_tax_rates:
  "map non_price_fields (generate_order_payload E ord requestor with_meta) =
     map (\<lambda>r. insert ''shipping_tax_rate'' (non_price_fields r))
       (generate_order_payload_without_taxes E ord requestor with_meta)
   \<and> map non_price_fields (generate_order_lines_payload_with_taxes E ord lines) =
     map (\<lambda>r. insert ''tax_rate'' (non_price_fields r))
       (generate_order_lines_payload_without_taxes E ord lines use_gross_as_base_price)
   \<and> map (\<lambda>r. field r ''lines'') (generate_order_payload E ord requestor with_meta) =
     [Some (JList (generate_order_lines_payload_with_taxes E ord (o_lines ord)))]
   \<and> map (\<lambda>r. field r ''lines'') (generate_order_payload_without_taxes E ord requestor with_meta) =
     [Some (JList (generate_order_lines_payload_without_taxes E ord (o_lines ord)
                     (include_taxes_in_prices E)))]"
proof -
  have p: "is_price_field n" if "n \<in> set
     [''unit_price_net_amount'', ''unit_price_gross_amount'', ''total_price_net_amount'',
      ''total_price_gross_amount'', ''undiscounted_unit_price_net_amount'',
      ''undiscounted_unit_price_gross_amount'', ''undiscounted_total_price_net_amount'',
      ''undiscounted_total_price_gross_amount'',
      ''unit_price_base_amount'', ''total_price_base_amount'',
      ''undiscounted_unit_price_base_amount'', ''undiscounted_total_price_base_amount'',
      ''shipping_price_net_amount'', ''shipping_price_gross_amount'', ''total_net_amount'',
      ''total_gross_amount'', ''undiscounted_total_net_amount'', ''undiscounted_total_gross_amount'',
      ''shipping_price_base_amount'', ''total_base_amount'', ''undiscounted_total_base_amount'']" for n
    using price_names that unfolding list_all_iff by blast
  have np: "map non_price_fields rs = map (\<lambda>s. Set.filter (\<lambda>n. \<not> is_price_field n) s) (map field_names rs)" for rs
    by (simp add: non_price_fields_def comp_def)
  have 1: "map non_price_fields (generate_order_payload E ord requestor with_meta) =
     map (\<lambda>r. insert ''shipping_tax_rate'' (non_price_fields r))
       (generate_order_payload_without_taxes E ord requestor with_meta)"
  proof -
    have pw: "\<forall>n\<in>{''shipping_price_net_amount'', ''shipping_price_gross_amount'', ''total_net_amount'',
      ''total_gross_amount'', ''undiscounted_total_net_amount'', ''undiscounted_total_gross_amount''}.
        is_price_field n"
      by (auto intro!: p)
    have pb: "\<forall>n\<in>{''shipping_price_base_amount'', ''total_base_amount'', ''undiscounted_total_base_amount''}.
        is_price_field n"
      by (auto intro!: p)
    have a: "map non_price_fields (generate_order_payload E ord requestor with_meta) =
             [insert ''shipping_tax_rate''
                (Set.filter (\<lambda>n. \<not> is_price_field n) (order_common_names with_meta))]"
      unfolding np generate_order_payload_def Let_def order_field_names prices_keys_with_taxes
      by (simp only: list.map filter_drop_prices_keep [OF pw tax_rate_names(2)])
    have b: "map non_price_fields (generate_order_payload_without_taxes E ord requestor with_meta) =
             [Set.filter (\<lambda>n. \<not> is_price_field n) (order_common_names with_meta)]"
      unfolding np generate_order_payload_without_taxes_def Let_def order_field_names
        prices_keys_without_taxes
      by (simp only: list.map filter_drop_prices [OF pb])
    have c: "map (\<lambda>r. insert ''shipping_tax_rate'' (non_price_fields r)) rs =
             map (insert ''shipping_tax_rate'') (map non_price_fields rs)" for rs
      by simp
    show ?thesis unfolding c a b by simp
  qed
  have 2: "map non_price_fields (generate_order_lines_payload_with_taxes E ord lines) =
     map (\<lambda>r. insert ''tax_rate'' (non_price_fields r))
       (generate_order_lines_payload_without_taxes E ord lines use_gross_as_base_price)"
  proof -
    have c: "map (\<lambda>r. insert ''tax_rate'' (non_price_fields r)) rs =
             map (insert ''tax_rate'') (map non_price_fields rs)" for rs
      by simp
    have pw: "\<forall>n\<in>{''unit_price_net_amount'', ''unit_price_gross_amount'', ''total_price_net_amount'',
                ''total_price_gross_amount'', ''undiscounted_unit_price_net_amount'',
                ''undiscounted_unit_price_gross_amount'', ''undiscounted_total_price_net_amount'',
                ''undiscounted_total_price_gross_amount''}. is_price_field n"
      by (auto intro!: p)
    have pb: "\<forall>n\<in>{''unit_price_base_amount'', ''total_price_base_amount'',
                ''undiscounted_unit_price_base_amount'', ''undiscounted_total_price_base_amount''}.
        is_price_field n"
      by (auto intro!: p)
    show ?thesis
      unfolding c np line_field_names_with_taxes line_field_names_without_taxes
      by (simp only: map_map comp_def filter_drop_prices_keep' [OF pw tax_rate_names(1)]
            filter_drop_prices [OF pb])
  qed
  have 3: "map (\<lambda>r. field r ''lines'') (generate_order_payload E ord requestor with_meta) =
     [Some (JList (generate_order_lines_payload_with_taxes E ord (o_lines ord)))]"
    by (simp add: generate_order_payload_def private_generate_order_payload_def serialize_def
          field_serialize_record generate_order_prices_data_with_taxes_def Let_def)
  have 4: "map (\<lambda>r. field r ''lines'') (generate_order_payload_without_taxes E ord requestor with_meta) =
     [Some (JList (generate_order_lines_payload_without_taxes E ord (o_lines ord)
                     (include_taxes_in_prices E)))]"
    by (simp add: generate_order_payload_without_taxes_def private_generate_order_payload_def serialize_def
          field_serialize_record generate_order_prices_data_without_taxes_def Let_def)
  show ?thesis using 1 2 3 4 by blast
qed



text \<open>
  C2 as stated fails: \<open>tax_rate\<close> is no price field, it is a field of the line with
  taxes and not of the line without; likewise \<open>shipping_tax_rate\<close> of the order record.
\<close>

lemma tax_rate_in_lines:
  "map (\<lambda>r. ''tax_rate'' \<in> non_price_fields r) (generate_order_lines_payload_with_taxes E ord lines) =
     map (\<lambda>l. True) lines"
  "map (\<lambda>r. ''tax_rate'' \<in> non_price_fields r)
       (generate_order_lines_payload_without_taxes E ord lines b) = map (\<lambda>l. False) lines"
proof -
  have m: "map (\<lambda>r. ''tax_rate'' \<in> non_price_fields r) rs =
           map (\<lambda>s. ''tax_rate'' \<in> s \<and> \<not> is_price_field ''tax_rate'') (map field_names rs)" for rs
    by (simp add: non_price_fields_def comp_def)
  show "map (\<lambda>r. ''tax_rate'' \<in> non_price_fields r) (generate_order_lines_payload_with_taxes E ord lines) =
     map (\<lambda>l. True) lines"
    unfolding m line_field_names_with_taxes by (simp add: tax_rate_names)
  show "map (\<lambda>r. ''tax_rate'' \<in> non_price_fields r)
       (generate_order_lines_payload_without_taxes E ord lines b) = map (\<lambda>l. False) lines"
    unfolding m line_field_names_without_taxes
    by (simp add: ORDER_LINE_FIELDS_def ORDER_LINES_EXTRA_DICT_DATA_def keys_dict_update keys_Cons keys_Nil)
qed

lemma shipping_tax_rate_in_order:
  "map (\<lambda>r. ''shipping_tax_rate'' \<in> non_price_fields r) (generate_order_payload E ord rq wm) = [True]"
  "map (\<lambda>r. ''shipping_tax_rate'' \<in> non_price_fields r)
       (generate_order_payload_without_taxes E ord rq wm) = [False]"
proof -
  have m: "map (\<lambda>r. ''shipping_tax_rate'' \<in> non_price_fields r) rs =
           map (\<lambda>s. ''shipping_tax_rate'' \<in> s \<and> \<not> is_price_field ''shipping_tax_rate'')
             (map field_names rs)" for rs
    by (simp add: non_price_fields_def comp_def)
  show "map (\<lambda>r. ''shipping_tax_rate'' \<in> non_price_fields r) (generate_order_payload E ord rq wm) = [True]"
    unfolding m generate_order_payload_def Let_def order_field_names prices_keys_with_taxes
    by (simp add: tax_rate_names)
  show "map (\<lambda>r. ''shipping_tax_rate'' \<in> non_price_fields r)
       (generate_order_payload_without_taxes E ord rq wm) = [False]"
    unfolding m generate_order_payload_without_taxes_def Let_def order_field_names
      prices_keys_without_taxes
    by (simp add: order_common_names_def ORDER_FIELDS_def)
qed

theorem order_payloads_tax_rate_counterexample:
  "map non_price_fields (generate_order_payload example_env example_order None True) \<noteq>
     map non_price_fields (generate_order_payload_without_taxes example_env example_order None True)
   \<and> map non_price_fields
         (generate_order_lines_payload_with_taxes example_env example_order (o_lines example_order)) \<noteq>
     map non_price_fields
         (generate_order_lines_payload_without_taxes example_env example_order (o_lines example_order)
            (include_taxes_in_prices example_env))
   \<and> map (\<lambda>r. ''tax_rate'' \<in> non_price_fields r)
         (generate_order_lines_payload_with_taxes example_env example_order (o_lines example_order)) = [True]
   \<and> map (\<lambda>r. ''tax_rate'' \<in> non_price_fields r)
         (generate_order_lines_payload_without_taxes example_env example_order (o_lines example_order)
            (include_taxes_in_prices example_env)) = [False]
   \<and> \<not> is_price_field ''tax_rate''"
proof -
  have l: "o_lines example_order = [example_order_line]"
    by (simp add: example_order_def)
  have a: "map (\<lambda>r. ''tax_rate'' \<in> non_price_fields r)
         (generate_order_lines_payload_with_taxes example_env example_order (o_lines example_order)) = [True]"
    by (simp add: tax_rate_in_lines l)
  have b: "map (\<lambda>r. ''tax_rate'' \<in> non_price_fields r)
         (generate_order_lines_payload_without_taxes example_env example_order (o_lines example_order)
            (include_taxes_in_prices example_env)) = [False]"
    by (simp add: tax_rate_in_lines l)
  have c: "map non_price_fields
         (generate_order_lines_payload_with_taxes example_env example_order (o_lines example_order)) \<noteq>
     map non_price_fields
         (generate_order_lines_payload_without_taxes example_env example_order (o_lines example_order)
            (include_taxes_in_prices example_env))"
  proof
    assume "map non_price_fields
         (generate_order_lines_payload_with_taxes example_env example_order (o_lines example_order)) =
     map non_price_fields
         (generate_order_lines_payload_without_taxes example_env example_order (o_lines example_order)
            (include_taxes_in_prices example_env))"
    then have "map (\<lambda>s. ''tax_rate'' \<in> s) (map non_price_fields
         (generate_order_lines_payload_with_taxes example_env example_order (o_lines example_order))) =
       map (\<lambda>s. ''tax_rate'' \<in> s) (map non_price_fields
         (generate_order_lines_payload_without_taxes example_env example_order (o_lines example_order)
            (include_taxes_in_prices example_env)))"
      by simp
    then show False using a b by (simp add: comp_def)
  qed
  have d: "map non_price_fields (generate_order_payload example_env example_order None True) \<noteq>
     map non_price_fields (generate_order_payload_without_taxes example_env example_order None True)"
  proof
    assume "map non_price_fields (generate_order_payload example_env example_order None True) =
     map non_price_fields (generate_order_payload_without_taxes example_env example_order None True)"
    then have "map (\<lambda>s. ''shipping_tax_rate'' \<in> s)
                 (map non_price_fields (generate_order_payload example_env example_order None True)) =
               map (\<lambda>s. ''shipping_tax_rate'' \<in> s)
                 (map non_price_fields (generate_order_payload_without_taxes example_env example_order None True))"
      by simp
    then show False
      using shipping_tax_rate_in_order [of example_env example_order None True]
      by (simp add: comp_def)
  qed
  show ?thesis using a b c d tax_rate_names(1) by blast
qed

section \<open>Absent relations\<close>

text \<open>
  Reading a key of a \<open>defaultdict\<close> leaves every later reading as it was, and a
  serialized list has one record for each entity.
\<close>

lemma catalogue_get_touch: "catalogue_get (catalogue_touch c key) key' = catalogue_get c key'"
  by (simp add: catalogue_get_def catalogue_touch_def split: option.splits)

lemma length_serialize: "length (serialize E view xs oid flds additional extra) = length xs"
  by (simp add: serialize_def)

lemma item0_serialize:
  "item0 (serialize E view [x] oid flds additional extra) =
     serialize_record E view oid flds additional extra x"
  by (simp add: serialize_def)

text \<open>The fields of the order and checkout records that hold a relation or the meta envelope.\<close>

lemma order_with_taxes_fields:
  "map (\<lambda>r. field r ''shipping_method'') (generate_order_payload E ord rq with_meta) =
     [Some (related_payload E (one_or_absent (o_shipping_method ord))
              [''name'', ''type'', ''currency'', ''price_amount''])]"
  "map (\<lambda>r. field r ''collection_point'') (generate_order_payload E ord rq with_meta) =
     [Some (case o_collection_point ord of
              Some collection_point \<Rightarrow> item0 (generate_collection_point_payload E collection_point)
            | None \<Rightarrow> JNull)]"
  "map (\<lambda>r. field r ''meta'') (generate_order_payload E ord rq True) =
     [Some (JObj (generate_meta E (generate_requestor E rq) False []))]"
  by (simp_all add: generate_order_payload_def private_generate_order_payload_def serialize_def
        field_serialize_record generate_order_prices_data_with_taxes_def Let_def)

lemma order_without_taxes_fields:
  "map (\<lambda>r. field r ''shipping_method'') (generate_order_payload_without_taxes E ord rq with_meta) =
     [Some (related_payload E (one_or_absent (o_shipping_method ord))
              [''name'', ''type'', ''currency'', ''price_amount''])]"
  "map (\<lambda>r. field r ''collection_point'') (generate_order_payload_without_taxes E ord rq with_meta) =
     [Some (case o_collection_point ord of
              Some collection_point \<Rightarrow> item0 (generate_collection_point_payload E collection_point)
            | None \<Rightarrow> JNull)]"
  "map (\<lambda>r. field r ''meta'') (generate_order_payload_without_taxes E ord rq True) =
     [Some (JObj (generate_meta E (generate_requestor E rq) False []))]"
  by (simp_all add: generate_order_payload_without_taxes_def private_generate_order_payload_def
        serialize_def field_serialize_record generate_order_prices_data_without_taxes_def Let_def)

lemma checkout_fields:
  "map (\<lambda>r. field r ''shipping_method'') (generate_checkout_payload E checkout rq) =
     [Some (related_payload E (one_or_absent (c_shipping_method checkout))
              [''name'', ''type'', ''currency'', ''price_amount''])]"
  "map (\<lambda>r. field r ''collection_point'') (generate_checkout_payload E checkout rq) =
     [Some (case c_collection_point checkout of
              Some collection_point \<Rightarrow> item0 (generate_collection_point_payload E collection_point)
            | None \<Rightarrow> JNull)]"
  "map (\<lambda>r. field r ''meta'') (generate_checkout_payload E checkout rq) =
     [Some (JObj (generate_meta E (generate_requestor E rq) False []))]"
  by (simp_all add: generate_checkout_payload_def serialize_def field_serialize_record Let_def)

lemma order_line_variant_fields:
  "map (\<lambda>r. [field r ''charge_taxes'', field r ''product_metadata'', field r ''product_type_metadata''])
     (generate_order_lines_payload_with_taxes E ord lines) =
   map (\<lambda>l. [Some (charge_taxes l), Some (get_product_metadata_for_order_line l),
              Some (get_product_type_metadata_for_order_line l)]) lines"
  "map (\<lambda>r. [field r ''charge_taxes'', field r ''product_metadata'', field r ''product_type_metadata''])
     (generate_order_lines_payload_without_taxes E ord lines b) =
   map (\<lambda>l. [Some (charge_taxes l), Some (get_product_metadata_for_order_line l),
              Some (get_product_type_metadata_for_order_line l)]) lines"
  by (simp_all add: generate_order_lines_payload_with_taxes_def
        generate_order_lines_payload_without_taxes_def ORDER_LINES_EXTRA_DICT_DATA_def
        serialize_def field_serialize_record Let_def comp_def)

lemma fulfillment_line_variant_fields:
  "map (\<lambda>r. [field r ''weight'', field r ''product_type''])
     (generate_fulfillment_lines_payload E f) =
   map (\<lambda>fl. case ol_variant (fl_order_line fl) of
               Some variant \<Rightarrow> [Some (get_weight_g E variant),
                                Some (pt_name (p_product_type (v_product variant)))]
             | None \<Rightarrow> [Some JNull, Some JNull]) (f_lines f)"
  by (simp add: generate_fulfillment_lines_payload_def serialize_def field_serialize_record comp_def
      split: option.splits)



text \<open>
  C6. Where an optional relation is absent, the field of the payload is null: the
  shipping method and the collection point of an order, in either regime, and of a
  checkout; the tax flag and the two metadata fields of an order line without variant,
  and the weight and product type of a fulfillment line whose order line has none; the
  id and the type of the issuing principal when there is no requestor. The generators
  are total functions: none of these cases raises.
\<close>

theorem absent_relations_resolve_to_null:
  "(o_shipping_method ord = None \<longrightarrow>
      map (\<lambda>r. field r ''shipping_method'') (generate_order_payload E ord requestor with_meta) =
        [Some JNull]
      \<and> map (\<lambda>r. field r ''shipping_method'')
            (generate_order_payload_without_taxes E ord requestor with_meta) = [Some JNull])
   \<and> (o_collection_point ord = None \<longrightarrow>
      map (\<lambda>r. field r ''collection_point'') (generate_order_payload E ord requestor with_meta) =
        [Some JNull]
      \<and> map (\<lambda>r. field r ''collection_point'')
            (generate_order_payload_without_taxes E ord requestor with_meta) = [Some JNull])
   \<and> (c_shipping_method checkout = None \<longrightarrow>
      map (\<lambda>r. field r ''shipping_method'') (generate_checkout_payload E checkout requestor) =
        [Some JNull])
   \<and> (c_collection_point checkout = None \<longrightarrow>
      map (\<lambda>r. field r ''collection_point'') (generate_checkout_payload E checkout requestor) =
        [Some JNull])
   \<and> (ol_variant line = None \<longrightarrow>
      charge_taxes line = JNull
      \<and> get_product_metadata_for_order_line line = JNull
      \<and> get_product_type_metadata_for_order_line line = JNull)
   \<and> map (\<lambda>r. [field r ''charge_taxes'', field r ''product_metadata'', field r ''product_type_metadata''])
        (generate_order_lines_payload_with_taxes E ord lines) =
      map (\<lambda>l. [Some (charge_taxes l), Some (get_product_metadata_for_order_line l),
                 Some (get_product_type_metadata_for_order_line l)]) lines
   \<and> map (\<lambda>r. [field r ''charge_taxes'', field r ''product_metadata'', field r ''product_type_metadata''])
        (generate_order_lines_payload_without_taxes E ord lines use_gross_as_base_price) =
      map (\<lambda>l. [Some (charge_taxes l), Some (get_product_metadata_for_order_line l),
                 Some (get_product_type_metadata_for_order_line l)]) lines
   \<and> map (\<lambda>r. [field r ''weight'', field r ''product_type''])
        (generate_fulfillment_lines_payload E fulfillment) =
      map (\<lambda>fl. case ol_variant (fl_order_line fl) of
                  Some variant \<Rightarrow> [Some (get_weight_g E variant),
                                   Some (pt_name (p_product_type (v_product variant)))]
                | None \<Rightarrow> [Some JNull, Some JNull]) (f_lines fulfillment)
   \<and> generate_requestor E None = JObj [(''id'', JNull), (''type'', JNull)]
   \<and> map (\<lambda>r. field r ''meta'') (generate_order_payload E ord None True) =
      [Some (JObj [(''issued_at'', JStr (now_isoformat E)), (''version'', JStr (version E)),
                   (''issuing_principal'', JObj [(''id'', JNull), (''type'', JNull)])])]
   \<and> map (\<lambda>r. field r ''meta'') (generate_checkout_payload E checkout None) =
      [Some (JObj [(''issued_at'', JStr (now_isoformat E)), (''version'', JStr (version E)),
                   (''issuing_principal'', JObj [(''id'', JNull), (''type'', JNull)])])]"
proof -
  have m: "generate_meta E (generate_requestor E None) False [] =
           [(''issued_at'', JStr (now_isoformat E)), (''version'', JStr (version E)),
            (''issuing_principal'', JObj [(''id'', JNull), (''type'', JNull)])]"
    by (simp add: generate_meta_def)
  show ?thesis
    apply (intro conjI impI)
    subgoal by (simp add: order_with_taxes_fields)
    subgoal by (simp add: order_without_taxes_fields)
    subgoal by (simp add: order_with_taxes_fields)
    subgoal by (simp add: order_without_taxes_fields)
    subgoal by (simp add: checkout_fields)
    subgoal by (simp add: checkout_fields)
    subgoal by (simp add: charge_taxes_def)
    subgoal by (simp add: get_product_metadata_for_order_line_def)
    subgoal by (simp add: get_product_type_metadata_for_order_line_def)
    subgoal by (rule order_line_variant_fields)
    subgoal by (rule order_line_variant_fields)
    subgoal by (rule fulfillment_line_variant_fields)
    subgoal by simp
    subgoal by (simp only: order_with_taxes_fields m)
    subgoal by (simp only: checkout_fields m)
    done
qed


text \<open>The concrete order, its line and the concrete checkout have none of these relations.\<close>

theorem absent_relations_resolve_to_null_witness:
  "o_shipping_method example_order = None
   \<and> o_collection_point example_order = None
   \<and> c_shipping_method example_checkout = None
   \<and> c_collection_point example_checkout = None
   \<and> ol_variant example_order_line = None
   \<and> map (\<lambda>r. field r ''shipping_method'') (generate_order_payload example_env example_order None True) =
        [Some JNull]
   \<and> map (\<lambda>r. field r ''collection_point'')
        (generate_order_payload_without_taxes example_env example_order None True) = [Some JNull]
   \<and> map (\<lambda>r. field r ''shipping_method'') (generate_checkout_payload example_env example_checkout None) =
        [Some JNull]
   \<and> map (\<lambda>r. field r ''collection_point'') (generate_checkout_payload example_env example_checkout None) =
        [Some JNull]
   \<and> charge_taxes example_order_line = JNull
   \<and> map (\<lambda>r. [field r ''charge_taxes'', field r ''product_metadata'', field r ''product_type_metadata''])
        (generate_order_lines_payload_with_taxes example_env example_order [example_order_line]) =
      [[Some JNull, Some JNull, Some JNull]]"
proof -
  have h: "o_shipping_method example_order = None" "o_collection_point example_order = None"
    by (simp_all add: example_order_def)
  have c: "c_shipping_method example_checkout = None" "c_collection_point example_checkout = None"
    by (simp_all add: example_checkout_def)
  have v: "ol_variant example_order_line = None"
    by (simp add: example_order_line_def)
  show ?thesis
    using h c v
      absent_relations_resolve_to_null [of example_order example_env None True example_checkout
        example_order_line "[example_order_line]" True]
    by simp
qed

end
